theory Spec2Isabelle
  imports Complex_Main
begin

section \<open>JavaScript numbers\<close>

text \<open>
  The program computes with JavaScript numbers, the double-precision numbers of
  IEEE 754. A number is modelled by the real it stands for, or it is one of the three
  special values \<open>Infinity\<close>, \<open>-Infinity\<close> and \<open>NaN\<close>. The result of an arithmetic
  operation on two numbers is the exact result rounded to the nearest double. The two
  zeros are not told apart: a zero divisor is read as \<open>+0\<close>, which is what \<open>Math.abs\<close>
  and a product of non-negative numbers deliver.
\<close>

datatype jsnum = Num real | PInf | NInf | NaN

subsection \<open>Rounding to the nearest double\<close>

text \<open>
  The doubles from \<open>2^e\<close> up to \<open>2^(e+1)\<close> are the multiples of \<open>2^(e-52)\<close>, for \<open>e\<close>
  from -1022 to 1023, and the doubles below \<open>2^(-1022)\<close> are the multiples of
  \<open>2^(-1074)\<close>. A real is rounded to the nearest multiple, a tie going to the even one,
  and a result that reaches \<open>2^1024\<close> is an infinity.

  \<open>round_even\<close> is the nearest integer, a tie going to the even one.
\<close>

definition round_even :: "real \<Rightarrow> int" where
  "round_even q =
     (let n = \<lfloor>q\<rfloor>; r = q - of_int n in
      if r < 1 / 2 then n else if 1 / 2 < r then n + 1 else if even n then n else n + 1)"

text \<open>
  \<open>binade a\<close> is the \<open>e\<close> with \<open>2^e \<le> a < 2^(e+1)\<close> for a positive \<open>a\<close>, kept between
  -1022 and 1024: it is found by halving \<open>a\<close> while it is 2 or more, or doubling it
  while it is below 1.
\<close>

function binade_up :: "int \<Rightarrow> real \<Rightarrow> int" where
  "binade_up e a = (if 2 \<le> a \<and> e < 1024 then binade_up (e + 1) (a / 2) else e)"
  by pat_completeness auto
termination
  by (relation "measure (\<lambda>(e, a). nat (1024 - e))") auto

function binade_down :: "int \<Rightarrow> real \<Rightarrow> int" where
  "binade_down e a = (if a < 1 \<and> - 1022 < e then binade_down (e - 1) (a * 2) else e)"
  by pat_completeness auto
termination
  by (relation "measure (\<lambda>(e, a). nat (e + 1022))") auto

declare binade_up.simps [simp del] binade_down.simps [simp del]

definition binade :: "real \<Rightarrow> int" where
  "binade a = (if 1 \<le> a then binade_up 0 a else binade_down 0 a)"

definition pow2 :: "int \<Rightarrow> real" where
  "pow2 k = (if 0 \<le> k then 2 ^ nat k else 1 / 2 ^ nat (- k))"

text \<open>
  \<open>n\<close> times the spacing \<open>ulp\<close>, with the sign of \<open>x\<close>; \<open>nearest\<close> takes for \<open>n\<close> the
  multiple nearest to \<open>x\<close>; \<open>fl\<close> takes for \<open>ulp\<close> the spacing of the doubles around
  \<open>x\<close>.
\<close>

definition scaled :: "real \<Rightarrow> real \<Rightarrow> int \<Rightarrow> jsnum" where
  "scaled x ulp n =
     (if 2 ^ 1024 \<le> of_int n * ulp then (if 0 < x then PInf else NInf)
      else Num (sgn x * (of_int n * ulp)))"

definition nearest :: "real \<Rightarrow> real \<Rightarrow> jsnum" where
  "nearest x ulp = scaled x ulp (round_even (\<bar>x\<bar> / ulp))"

definition fl :: "real \<Rightarrow> jsnum" where
  "fl x = (if x = 0 then Num 0 else nearest x (pow2 (binade \<bar>x\<bar> - 52)))"

subsection \<open>Operations\<close>

fun js_neg :: "jsnum \<Rightarrow> jsnum" where
  "js_neg (Num a) = Num (- a)"
| "js_neg PInf = NInf"
| "js_neg NInf = PInf"
| "js_neg NaN = NaN"

fun js_add :: "jsnum \<Rightarrow> jsnum \<Rightarrow> jsnum" where
  "js_add (Num a) (Num b) = fl (a + b)"
| "js_add NaN _ = NaN"
| "js_add _ NaN = NaN"
| "js_add PInf NInf = NaN"
| "js_add NInf PInf = NaN"
| "js_add PInf _ = PInf"
| "js_add NInf _ = NInf"
| "js_add _ PInf = PInf"
| "js_add _ NInf = NInf"

definition js_sub :: "jsnum \<Rightarrow> jsnum \<Rightarrow> jsnum" where
  "js_sub x y = js_add x (js_neg y)"

text \<open>The sign of a number: \<open>None\<close> for \<open>NaN\<close>, otherwise -1, 0 or 1.\<close>

fun js_sign :: "jsnum \<Rightarrow> int option" where
  "js_sign (Num a) = Some (if a < 0 then - 1 else if a = 0 then 0 else 1)"
| "js_sign PInf = Some 1"
| "js_sign NInf = Some (- 1)"
| "js_sign NaN = None"

definition signed_inf :: "int \<Rightarrow> jsnum" where
  "signed_inf s = (if s < 0 then NInf else if s = 0 then NaN else PInf)"

fun js_mul :: "jsnum \<Rightarrow> jsnum \<Rightarrow> jsnum" where
  "js_mul (Num a) (Num b) = fl (a * b)"
| "js_mul x y =
     (case (js_sign x, js_sign y) of
        (Some s, Some t) \<Rightarrow> signed_inf (s * t)
      | _ \<Rightarrow> NaN)"

fun js_div :: "jsnum \<Rightarrow> jsnum \<Rightarrow> jsnum" where
  "js_div (Num a) (Num b) =
     (if b \<noteq> 0 then fl (a / b)
      else if 0 < a then PInf else if a < 0 then NInf else NaN)"
| "js_div (Num a) PInf = Num 0"
| "js_div (Num a) NInf = Num 0"
| "js_div PInf (Num b) = (if b < 0 then NInf else PInf)"
| "js_div NInf (Num b) = (if b < 0 then PInf else NInf)"
| "js_div _ _ = NaN"

fun js_abs :: "jsnum \<Rightarrow> jsnum" where
  "js_abs (Num a) = Num \<bar>a\<bar>"
| "js_abs PInf = PInf"
| "js_abs NInf = PInf"
| "js_abs NaN = NaN"

text \<open>The comparisons \<open><\<close>, \<open>>\<close>, \<open><=\<close>, \<open>>=\<close> and \<open>===\<close>: false whenever an operand is \<open>NaN\<close>.\<close>

fun js_lt :: "jsnum \<Rightarrow> jsnum \<Rightarrow> bool" where
  "js_lt (Num a) (Num b) = (a < b)"
| "js_lt NaN _ = False"
| "js_lt _ NaN = False"
| "js_lt NInf NInf = False"
| "js_lt NInf _ = True"
| "js_lt PInf _ = False"
| "js_lt (Num a) PInf = True"
| "js_lt (Num a) NInf = False"

fun js_eq :: "jsnum \<Rightarrow> jsnum \<Rightarrow> bool" where
  "js_eq NaN _ = False"
| "js_eq _ NaN = False"
| "js_eq x y = (x = y)"

definition js_gt :: "jsnum \<Rightarrow> jsnum \<Rightarrow> bool" where
  "js_gt x y = js_lt y x"

definition js_le :: "jsnum \<Rightarrow> jsnum \<Rightarrow> bool" where
  "js_le x y = (js_lt x y \<or> js_eq x y)"

definition js_ge :: "jsnum \<Rightarrow> jsnum \<Rightarrow> bool" where
  "js_ge x y = js_le y x"

text \<open>\<open>Math.min\<close> and \<open>Math.max\<close> of two arguments: \<open>NaN\<close> if either is.\<close>

definition js_min :: "jsnum \<Rightarrow> jsnum \<Rightarrow> jsnum" where
  "js_min x y = (if x = NaN \<or> y = NaN then NaN else if js_lt y x then y else x)"

definition js_max :: "jsnum \<Rightarrow> jsnum \<Rightarrow> jsnum" where
  "js_max x y = (if x = NaN \<or> y = NaN then NaN else if js_lt x y then y else x)"

fun js_floor :: "jsnum \<Rightarrow> jsnum" where
  "js_floor (Num a) = Num (of_int \<lfloor>a\<rfloor>)"
| "js_floor x = x"

text \<open>
  \<open>Number(x.toFixed(6))\<close>. \<open>toFixed(6)\<close> prints the multiple of \<open>10^-6\<close> nearest to the
  exact value of the double \<open>x\<close>, a tie going away from zero (it picks the larger
  candidate for the absolute value and puts the sign back); from \<open>10^21\<close> on it prints
  the number itself. \<open>Number\<close> reads the decimal as the nearest double. The special
  values print as their names, which \<open>Number\<close> reads back.
\<close>

definition round6 :: "real \<Rightarrow> real" where
  "round6 a =
     (if 10 ^ 21 \<le> \<bar>a\<bar> then a
      else sgn a * (of_int \<lfloor>\<bar>a\<bar> * 10 ^ 6 + 1 / 2\<rfloor> / 10 ^ 6))"

fun toFixed6 :: "jsnum \<Rightarrow> jsnum" where
  "toFixed6 (Num a) = fl (round6 a)"
| "toFixed6 x = x"

section \<open>Signals and position sizing\<close>

datatype direction = LONG | SHORT

text \<open>
  \<open>entryZone\<close> is a price, or the string \<open>'market'\<close> that \<open>calculatePositionSize\<close> and
  \<open>executeTrade\<close> test for.
\<close>

datatype entry_zone = Market | Price jsnum

record take_profit_level =
  tp_level :: int
  tp_price :: jsnum

record parsed_signal =
  pair :: string
  direction :: direction
  entryZone :: entry_zone
  sig_stopLoss :: jsnum
  sig_takeProfits :: "take_profit_level list"
  confidence :: jsnum

record sizing =
  sz_size :: jsnum
  sz_leverage :: jsnum

text \<open>
  \<open>calculatePositionSize\<close>. The literals 100, 20 and 1 are doubles; the literal \<open>0.8\<close>
  stands for the double nearest to it.
\<close>

definition calculatePositionSize ::
  "parsed_signal \<Rightarrow> jsnum \<Rightarrow> jsnum \<Rightarrow> jsnum \<Rightarrow> sizing" where
  "calculatePositionSize signal portfolioValue portfolioPercentage currentPrice =
     (let riskAmount = js_div (js_mul portfolioValue portfolioPercentage) (Num 100);
          entryPrice = (case entryZone signal of Market \<Rightarrow> currentPrice | Price p \<Rightarrow> p);
          stopLossDistance = js_abs (js_sub entryPrice (sig_stopLoss signal));
          riskPerUnit = stopLossDistance;
          positionSizeInUnits = js_div riskAmount riskPerUnit;
          positionValueUSDT = js_mul positionSizeInUnits entryPrice;
          maxLeverage = Num 20;
          requiredMargin = js_div positionValueUSDT maxLeverage;
          availableForMargin = js_mul portfolioValue (fl (8 / 10));
          actualMargin = js_min requiredMargin availableForMargin;
          leverage = js_min maxLeverage (js_max (Num 1) (js_div positionValueUSDT actualMargin));
          finalPositionSize = js_div (js_mul actualMargin leverage) entryPrice
      in \<lparr> sz_size = toFixed6 finalPositionSize, sz_leverage = js_floor leverage \<rparr>)"

text \<open>
  The local constants of \<open>calculatePositionSize\<close>, named for stating properties;
  \<open>leverageOf\<close> is its \<open>leverage\<close>.
\<close>

definition entryPriceOf :: "parsed_signal \<Rightarrow> jsnum \<Rightarrow> jsnum" where
  "entryPriceOf signal currentPrice =
     (case entryZone signal of Market \<Rightarrow> currentPrice | Price p \<Rightarrow> p)"

definition riskPerUnit :: "parsed_signal \<Rightarrow> jsnum \<Rightarrow> jsnum" where
  "riskPerUnit signal currentPrice =
     js_abs (js_sub (entryPriceOf signal currentPrice) (sig_stopLoss signal))"

definition riskAmount :: "jsnum \<Rightarrow> jsnum \<Rightarrow> jsnum" where
  "riskAmount portfolioValue portfolioPercentage =
     js_div (js_mul portfolioValue portfolioPercentage) (Num 100)"

definition positionSizeInUnits ::
  "parsed_signal \<Rightarrow> jsnum \<Rightarrow> jsnum \<Rightarrow> jsnum \<Rightarrow> jsnum" where
  "positionSizeInUnits signal portfolioValue portfolioPercentage currentPrice =
     js_div (riskAmount portfolioValue portfolioPercentage) (riskPerUnit signal currentPrice)"

definition positionValueUSDT ::
  "parsed_signal \<Rightarrow> jsnum \<Rightarrow> jsnum \<Rightarrow> jsnum \<Rightarrow> jsnum" where
  "positionValueUSDT signal portfolioValue portfolioPercentage currentPrice =
     js_mul (positionSizeInUnits signal portfolioValue portfolioPercentage currentPrice)
       (entryPriceOf signal currentPrice)"

definition availableForMargin :: "jsnum \<Rightarrow> jsnum" where
  "availableForMargin portfolioValue = js_mul portfolioValue (fl (8 / 10))"

definition actualMargin ::
  "parsed_signal \<Rightarrow> jsnum \<Rightarrow> jsnum \<Rightarrow> jsnum \<Rightarrow> jsnum" where
  "actualMargin signal portfolioValue portfolioPercentage currentPrice =
     js_min
       (js_div (positionValueUSDT signal portfolioValue portfolioPercentage currentPrice) (Num 20))
       (availableForMargin portfolioValue)"

definition leverageOf ::
  "parsed_signal \<Rightarrow> jsnum \<Rightarrow> jsnum \<Rightarrow> jsnum \<Rightarrow> jsnum" where
  "leverageOf signal portfolioValue portfolioPercentage currentPrice =
     js_min (Num 20)
       (js_max (Num 1)
          (js_div (positionValueUSDT signal portfolioValue portfolioPercentage currentPrice)
             (actualMargin signal portfolioValue portfolioPercentage currentPrice)))"

definition finalPositionSize ::
  "parsed_signal \<Rightarrow> jsnum \<Rightarrow> jsnum \<Rightarrow> jsnum \<Rightarrow> jsnum" where
  "finalPositionSize signal portfolioValue portfolioPercentage currentPrice =
     js_div
       (js_mul (actualMargin signal portfolioValue portfolioPercentage currentPrice)
          (leverageOf signal portfolioValue portfolioPercentage currentPrice))
       (entryPriceOf signal currentPrice)"

section \<open>The exchange, as the client sees it\<close>

text \<open>
  Every effect of the client is a request sent with \<open>fetch\<close> or a pause made with
  \<open>setTimeout\<close>. The world is the list of the effects so far, oldest first, and the
  exchange is any function from that history (ending with the request being answered)
  to the outcome of \<open>fetch\<close>. Request signing, the headers and the logger are left out.
\<close>

datatype http_method = GET | POST

text \<open>
  A parameter value: a string, a number printed with \<open>toString()\<close>, a number, or a
  boolean.
\<close>

datatype pval = PStr string | PNumStr jsnum | PNum jsnum | PBool bool

record request =
  endpoint :: string
  http_method :: http_method
  params :: "(string \<times> pval) list"

datatype effect = Fetch request | Sleep int

type_synonym world = "effect list"

text \<open>
  The rows of the exchange's lists, with their numeric strings already read by
  \<open>parseFloat\<close> (\<open>NaN\<close> for a string that is no number). \<open>pi_entryPrice\<close> is the row's
  \<open>avgPrice\<close>; \<open>getPosition\<close> returns the row under the names of \<open>PositionInfo\<close>.
\<close>

record position_info =
  pi_symbol :: string
  pi_side :: string
  pi_size :: jsnum
  pi_entryPrice :: jsnum
  pi_markPrice :: jsnum
  pi_unrealisedPnl :: jsnum
  pi_leverage :: jsnum
  pi_positionStatus :: string

record order_row =
  row_orderId :: string
  row_orderType :: string
  row_stopLoss :: "string option"

record ticker_row =
  tk_symbol :: string
  tk_lastPrice :: jsnum

text \<open>
  The \<open>result\<close> member of a response envelope. The client casts it unchecked, so each
  operation below says what it does with every shape: \<open>Absent\<close> is a missing or null
  \<open>result\<close>, \<open>OtherObject\<close> an object with none of the members the client reads.
\<close>

datatype payload =
    Absent
  | PositionList "position_info list"
  | OrderCreated string string
  | OrderList "order_row list"
  | TickerList "ticker_row list"
  | OtherObject

text \<open>
  What \<open>JSON.parse(responseText)\<close> yields: \<open>Malformed\<close> when it throws or the value is
  not an object with a numeric \<open>retCode\<close>, otherwise the envelope's \<open>retCode\<close>, \<open>retMsg\<close>
  and \<open>result\<close>.
\<close>

datatype json_body = Malformed | Envelope int string payload

record http_response =
  ok :: bool
  status :: nat
  statusText :: string
  responseText :: string
  json :: json_body

datatype fetch_result = FetchFailed string | Responded http_response

record environment =
  fetch :: "world \<Rightarrow> fetch_result"

datatype error =
    NetworkError string
  | HttpError nat string string
  | ApiError int string
  | SyntaxError
  | ParseFailed string
  | TypeError
  | MarketPriceNotFound string
  | InvalidMarketPrice string
  | FillNotFound
  | StopLossSetFailed error

type_synonym 'a io = "world \<Rightarrow> (error + 'a) \<times> world"

definition io_return :: "'a \<Rightarrow> 'a io" where
  "io_return x w = (Inr x, w)"

definition io_throw :: "error \<Rightarrow> 'a io" where
  "io_throw e w = (Inl e, w)"

definition io_bind :: "'a io \<Rightarrow> ('a \<Rightarrow> 'b io) \<Rightarrow> 'b io" where
  "io_bind m f w = (case m w of (Inl e, w') \<Rightarrow> (Inl e, w') | (Inr x, w') \<Rightarrow> f x w')"

definition io_catch :: "'a io \<Rightarrow> (error \<Rightarrow> 'a io) \<Rightarrow> 'a io" where
  "io_catch m h w = (case m w of (Inl e, w') \<Rightarrow> h e w' | (Inr x, w') \<Rightarrow> (Inr x, w'))"

definition sleep :: "int \<Rightarrow> unit io" where
  "sleep ms w = (Inr (), w @ [Sleep ms])"

subsection \<open>Requests and responses\<close>

text \<open>\<open>symbol.replace('/', '')\<close> removes the first slash only.\<close>

fun convertSymbolToBybit :: "string \<Rightarrow> string" where
  "convertSymbolToBybit [] = []"
| "convertSymbolToBybit (c # cs) = (if c = CHR ''/'' then cs else c # convertSymbolToBybit cs)"

text \<open>
  The \<open>try\<close> block of \<open>handleResponse\<close>. Its own error for a rejected code is thrown
  inside the block, so the \<open>catch\<close> that follows turns it into the parse failure.
\<close>

definition handleResponse_try :: "http_response \<Rightarrow> error + payload" where
  "handleResponse_try response =
     (case json response of
        Malformed \<Rightarrow> Inl SyntaxError
      | Envelope retCode retMsg result \<Rightarrow>
          if retCode \<noteq> 0 \<and> retCode \<noteq> 110043 \<and> retCode \<noteq> 34040
          then Inl (ApiError retCode retMsg)
          else Inr result)"

definition handleResponse :: "http_response \<Rightarrow> error + payload" where
  "handleResponse response =
     (if \<not> ok response
      then Inl (HttpError (status response) (statusText response) (responseText response))
      else (case handleResponse_try response of
              Inl parseError \<Rightarrow> Inl (ParseFailed (responseText response))
            | Inr result \<Rightarrow> Inr result))"

definition makeRawRequest :: "environment \<Rightarrow> request \<Rightarrow> payload io" where
  "makeRawRequest env req w =
     (let w' = w @ [Fetch req] in
      case fetch env w' of
        FetchFailed msg \<Rightarrow> (Inl (NetworkError msg), w')
      | Responded response \<Rightarrow> (handleResponse response, w'))"

text \<open>
  \<open>makeRequest\<close> sends the raw request through \<open>withRateLimit\<close>, which hands the
  settlement of the raw request to the caller as it is (the dispatcher is modelled in
  its own section). The operations below await each request before the next.
\<close>

definition makeRequest :: "environment \<Rightarrow> request \<Rightarrow> payload io" where
  "makeRequest env req = makeRawRequest env req"

subsection \<open>The client's operations\<close>

text \<open>
  What \<open>result.list\<close> holds for \<open>getPosition\<close>: reading \<open>list\<close> of a missing result,
  or calling \<open>find\<close> on a missing list, is a \<open>TypeError\<close> (\<open>None\<close>); the rows of another
  list have no \<open>symbol\<close> and \<open>size\<close> to match, so the search finds nothing in them.
\<close>

fun position_rows :: "payload \<Rightarrow> position_info list option" where
  "position_rows (PositionList rows) = Some rows"
| "position_rows (OrderList rows) = Some []"
| "position_rows (TickerList rows) = Some []"
| "position_rows _ = None"

definition position_request :: "string \<Rightarrow> request" where
  "position_request bybitSymbol =
     \<lparr> endpoint = ''/v5/position/list'', http_method = GET,
       params = [(''category'', PStr ''linear''), (''symbol'', PStr bybitSymbol)] \<rparr>"

definition getPosition :: "environment \<Rightarrow> string \<Rightarrow> position_info option io" where
  "getPosition env symbol =
     (let bybitSymbol = convertSymbolToBybit symbol in
      io_bind (makeRequest env (position_request bybitSymbol)) (\<lambda>result.
        case position_rows result of
          None \<Rightarrow> io_throw TypeError
        | Some rows \<Rightarrow>
            io_return (find (\<lambda>p. pi_symbol p = bybitSymbol \<and> js_gt (pi_size p) (Num 0)) rows)))"

definition leverage_request :: "string \<Rightarrow> jsnum \<Rightarrow> request" where
  "leverage_request bybitSymbol leverage =
     \<lparr> endpoint = ''/v5/position/set-leverage'', http_method = POST,
       params = [(''category'', PStr ''linear''), (''symbol'', PStr bybitSymbol),
                 (''buyLeverage'', PNumStr leverage), (''sellLeverage'', PNumStr leverage)] \<rparr>"

definition setLeverage :: "environment \<Rightarrow> string \<Rightarrow> jsnum \<Rightarrow> unit io" where
  "setLeverage env symbol leverage =
     (let bybitSymbol = convertSymbolToBybit symbol in
      io_bind (makeRequest env (leverage_request bybitSymbol leverage)) (\<lambda>_. io_return ()))"

datatype order_side = Buy | Sell

datatype order_type = MarketOrder | LimitOrder

fun side_name :: "order_side \<Rightarrow> string" where
  "side_name Buy = ''Buy''"
| "side_name Sell = ''Sell''"

record trade_order =
  to_symbol :: string
  to_side :: order_side
  to_orderType :: order_type
  to_qty :: jsnum

text \<open>
  \<open>OrderResponse\<close> without its \<open>createdTime\<close>. \<open>orderId\<close> is \<open>None\<close> when the result
  has no such member (\<open>undefined\<close>).
\<close>

record order_response =
  orderId :: "string option"
  resp_symbol :: string
  resp_side :: order_side
  resp_orderType :: string
  resp_qty :: jsnum
  resp_status :: string

fun result_orderId :: "payload \<Rightarrow> string option option" where
  "result_orderId Absent = None"
| "result_orderId (OrderCreated oid linkId) = Some (Some oid)"
| "result_orderId _ = Some None"

definition market_order_request :: "string \<Rightarrow> order_side \<Rightarrow> jsnum \<Rightarrow> request" where
  "market_order_request bybitSymbol side roundedQty =
     \<lparr> endpoint = ''/v5/order/create'', http_method = POST,
       params = [(''category'', PStr ''linear''), (''symbol'', PStr bybitSymbol),
                 (''side'', PStr (side_name side)), (''orderType'', PStr ''Market''),
                 (''qty'', PNumStr roundedQty), (''timeInForce'', PStr ''IOC'')] \<rparr>"

definition placeMarketOrder :: "environment \<Rightarrow> trade_order \<Rightarrow> order_response io" where
  "placeMarketOrder env order =
     (let bybitSymbol = convertSymbolToBybit (to_symbol order);
          roundedQty = js_floor (to_qty order) in
      io_bind (makeRequest env (market_order_request bybitSymbol (to_side order) roundedQty))
        (\<lambda>result.
           case result_orderId result of
             None \<Rightarrow> io_throw TypeError
           | Some oid \<Rightarrow>
               io_return \<lparr> orderId = oid, resp_symbol = bybitSymbol, resp_side = to_side order,
                           resp_orderType = ''Market'', resp_qty = to_qty order,
                           resp_status = ''Created'' \<rparr>))"

definition stop_loss_request :: "string \<Rightarrow> jsnum \<Rightarrow> request" where
  "stop_loss_request bybitSymbol stopLossPrice =
     \<lparr> endpoint = ''/v5/position/trading-stop'', http_method = POST,
       params = [(''category'', PStr ''linear''), (''symbol'', PStr bybitSymbol),
                 (''stopLoss'', PNumStr stopLossPrice), (''positionIdx'', PNum (Num 0))] \<rparr>"

definition setStopLoss :: "environment \<Rightarrow> string \<Rightarrow> direction \<Rightarrow> jsnum \<Rightarrow> unit io" where
  "setStopLoss env symbol side stopLossPrice =
     (let bybitSymbol = convertSymbolToBybit symbol in
      io_bind (makeRequest env (stop_loss_request bybitSymbol stopLossPrice))
        (\<lambda>_. io_return ()))"

text \<open>
  \<open>result.list.filter(order => order.stopLoss)\<close> of \<open>cancelStopLoss\<close>: a \<open>TypeError\<close>
  without a list; an order is kept when its \<open>stopLoss\<close> is a non-empty string; the rows
  of another list have no \<open>stopLoss\<close>.
\<close>

fun stop_loss_orders :: "payload \<Rightarrow> order_row list option" where
  "stop_loss_orders (OrderList rows) =
     Some (filter (\<lambda>order. case row_stopLoss order of None \<Rightarrow> False | Some s \<Rightarrow> s \<noteq> []) rows)"
| "stop_loss_orders (PositionList rows) = Some []"
| "stop_loss_orders (TickerList rows) = Some []"
| "stop_loss_orders _ = None"

definition open_orders_request :: "string \<Rightarrow> request" where
  "open_orders_request bybitSymbol =
     \<lparr> endpoint = ''/v5/order/realtime'', http_method = GET,
       params = [(''category'', PStr ''linear''), (''symbol'', PStr bybitSymbol)] \<rparr>"

definition cancel_request :: "string \<Rightarrow> string \<Rightarrow> request" where
  "cancel_request bybitSymbol oid =
     \<lparr> endpoint = ''/v5/order/cancel'', http_method = POST,
       params = [(''category'', PStr ''linear''), (''symbol'', PStr bybitSymbol),
                 (''orderId'', PStr oid)] \<rparr>"

text \<open>The \<open>for\<close> loop of \<open>cancelStopLoss\<close>: it stops at the first cancellation that throws.\<close>

fun cancel_each :: "environment \<Rightarrow> string \<Rightarrow> order_row list \<Rightarrow> unit io" where
  "cancel_each env bybitSymbol [] = io_return ()"
| "cancel_each env bybitSymbol (order # orders) =
     io_bind (makeRequest env (cancel_request bybitSymbol (row_orderId order)))
       (\<lambda>_. cancel_each env bybitSymbol orders)"

text \<open>\<open>cancelStopLoss\<close> logs whatever is thrown inside it and returns normally.\<close>

definition cancelStopLoss :: "environment \<Rightarrow> string \<Rightarrow> unit io" where
  "cancelStopLoss env symbol =
     (let bybitSymbol = convertSymbolToBybit symbol in
      io_catch
        (io_bind (makeRequest env (open_orders_request bybitSymbol)) (\<lambda>result.
           case stop_loss_orders result of
             None \<Rightarrow> io_throw TypeError
           | Some stopLossOrders \<Rightarrow> cancel_each env bybitSymbol stopLossOrders))
        (\<lambda>error. io_return ()))"

definition take_profit_request :: "string \<Rightarrow> order_side \<Rightarrow> jsnum \<Rightarrow> jsnum \<Rightarrow> request" where
  "take_profit_request symbol orderSide roundedQty tpPrice =
     \<lparr> endpoint = ''/v5/order/create'', http_method = POST,
       params = [(''category'', PStr ''linear''), (''symbol'', PStr symbol),
                 (''side'', PStr (side_name orderSide)), (''orderType'', PStr ''Limit''),
                 (''qty'', PNumStr roundedQty), (''price'', PNumStr tpPrice),
                 (''timeInForce'', PStr ''GTC''), (''reduceOnly'', PBool True)] \<rparr>"

text \<open>
  \<open>setTakeProfits\<close>: \<open>takeProfits[takeProfits.length - 1]\<close> is \<open>undefined\<close> for the empty
  ladder, and the function returns; the \<open>catch\<close> around the request logs and rethrows.
\<close>

definition setTakeProfits ::
  "environment \<Rightarrow> string \<Rightarrow> direction \<Rightarrow> take_profit_level list \<Rightarrow> jsnum \<Rightarrow> unit io" where
  "setTakeProfits env symbol side takeProfits positionSize =
     (case takeProfits of
        [] \<Rightarrow> io_return ()
      | _ # _ \<Rightarrow>
          (let highestTP = last takeProfits;
               orderSide = (if side = LONG then Sell else Buy);
               roundedQty = js_floor positionSize in
           io_catch
             (io_bind
                (makeRequest env
                   (take_profit_request symbol orderSide roundedQty (tp_price highestTP)))
                (\<lambda>_. io_return ()))
             (\<lambda>error. io_throw error)))"

text \<open>
  \<open>getMarketPrice\<close>: the prices of \<open>result.list\<close> as \<open>parseFloat(ticker.lastPrice)\<close>
  reads them. Reading \<open>list\<close> of a missing result is a \<open>TypeError\<close> (\<open>None\<close>); a result
  without a list counts as an empty one; the rows of another list have no \<open>lastPrice\<close>,
  which \<open>parseFloat\<close> reads as \<open>NaN\<close>.
\<close>

fun ticker_prices :: "payload \<Rightarrow> jsnum list option" where
  "ticker_prices Absent = None"
| "ticker_prices (TickerList rows) = Some (map tk_lastPrice rows)"
| "ticker_prices (PositionList rows) = Some (map (\<lambda>_. NaN) rows)"
| "ticker_prices (OrderList rows) = Some (map (\<lambda>_. NaN) rows)"
| "ticker_prices _ = Some []"

definition ticker_request :: "string \<Rightarrow> request" where
  "ticker_request bybitSymbol =
     \<lparr> endpoint = ''/v5/market/tickers'', http_method = GET,
       params = [(''category'', PStr ''linear''), (''symbol'', PStr bybitSymbol)] \<rparr>"

definition getMarketPrice :: "environment \<Rightarrow> string \<Rightarrow> jsnum io" where
  "getMarketPrice env symbol =
     (let bybitSymbol = convertSymbolToBybit symbol in
      io_bind (makeRequest env (ticker_request bybitSymbol)) (\<lambda>result.
        case ticker_prices result of
          None \<Rightarrow> io_throw TypeError
        | Some [] \<Rightarrow> io_throw (MarketPriceNotFound bybitSymbol)
        | Some (price # _) \<Rightarrow>
            if price = NaN \<or> js_le price (Num 0) then io_throw (InvalidMarketPrice symbol)
            else io_return price))"

subsection \<open>Trade execution\<close>

definition emergencyClosePosition :: "environment \<Rightarrow> string \<Rightarrow> direction \<Rightarrow> unit io" where
  "emergencyClosePosition env symbol dir =
     io_bind (getPosition env symbol) (\<lambda>position.
       case position of
         None \<Rightarrow> io_return ()
       | Some p \<Rightarrow>
           if js_eq (pi_size p) (Num 0) then io_return ()
           else
             (let orderSide = (if dir = LONG then Sell else Buy) in
              io_bind
                (placeMarketOrder env
                   \<lparr> to_symbol = symbol, to_side = orderSide, to_orderType = MarketOrder,
                     to_qty = pi_size p \<rparr>)
                (\<lambda>_. io_return ())))"

text \<open>
  The stop-loss loop of \<open>executeTrade\<close>, entered with \<open>attempt = 1\<close>: it leaves with
  \<open>stopLossSet = true\<close> after the first attempt that succeeds, pauses \<open>1000 * attempt\<close>
  after a failed first or second attempt, and throws after a failed third.
\<close>

function stopLossLoop ::
  "environment \<Rightarrow> string \<Rightarrow> direction \<Rightarrow> jsnum \<Rightarrow> int \<Rightarrow> bool io" where
  "stopLossLoop env bybitSymbol dir stopLoss attempt w =
     (if attempt \<le> 3 then
        (case setStopLoss env bybitSymbol dir stopLoss w of
           (Inr _, w') \<Rightarrow> (Inr True, w')
         | (Inl error, w') \<Rightarrow>
             if attempt = 3 then (Inl (StopLossSetFailed error), w')
             else stopLossLoop env bybitSymbol dir stopLoss (attempt + 1)
                    (w' @ [Sleep (1000 * attempt)]))
      else (Inr False, w))"
  by pat_completeness auto
termination
  by (relation "measure (\<lambda>(env, bybitSymbol, dir, stopLoss, attempt, w). nat (4 - attempt))") auto

declare stopLossLoop.simps [simp del]

record trade_result =
  tr_orderId :: "string option"
  tr_leverage :: jsnum
  tr_positionSize :: jsnum
  tr_actualEntryPrice :: jsnum

text \<open>
  The \<open>try\<close> block of \<open>executeTrade\<close> up to the assignment of \<open>orderResponse\<close>: the
  entry price, the sizing, the leverage and the market order. An error thrown here
  finds \<open>orderResponse\<close> still \<open>null\<close>.
\<close>

definition executeTrade_place ::
  "environment \<Rightarrow> parsed_signal \<Rightarrow> jsnum \<Rightarrow> jsnum
     \<Rightarrow> (jsnum \<times> sizing \<times> order_response) io" where
  "executeTrade_place env signal portfolioValue portfolioPercentage =
     (let bybitSymbol = convertSymbolToBybit (pair signal) in
      io_bind
        (case entryZone signal of
           Market \<Rightarrow> getMarketPrice env bybitSymbol
         | Price p \<Rightarrow> io_return p)
        (\<lambda>currentPrice.
           let sized = calculatePositionSize signal portfolioValue portfolioPercentage currentPrice in
           io_bind (setLeverage env bybitSymbol (sz_leverage sized)) (\<lambda>_.
           io_bind
             (placeMarketOrder env
                \<lparr> to_symbol = bybitSymbol,
                  to_side = (if direction signal = LONG then Buy else Sell),
                  to_orderType = MarketOrder, to_qty = sz_size sized \<rparr>)
             (\<lambda>orderResponse. io_return (currentPrice, sized, orderResponse)))))"

text \<open>The rest of the \<open>try\<close> block, with \<open>orderResponse\<close> assigned.\<close>

definition executeTrade_protect ::
  "environment \<Rightarrow> parsed_signal \<Rightarrow> jsnum \<Rightarrow> sizing \<Rightarrow> order_response \<Rightarrow> trade_result io" where
  "executeTrade_protect env signal currentPrice sized orderResponse =
     (let bybitSymbol = convertSymbolToBybit (pair signal) in
      io_bind (sleep 3000) (\<lambda>_.
      io_bind (getPosition env bybitSymbol) (\<lambda>position.
        case position of
          None \<Rightarrow> io_throw FillNotFound
        | Some p \<Rightarrow>
            if js_eq (pi_size p) (Num 0) then io_throw FillNotFound
            else
              io_bind (stopLossLoop env bybitSymbol (direction signal) (sig_stopLoss signal) 1)
                (\<lambda>stopLossSet.
              io_bind
                (setTakeProfits env bybitSymbol (direction signal) (sig_takeProfits signal)
                   (sz_size sized))
                (\<lambda>_.
              io_return \<lparr> tr_orderId = orderId orderResponse, tr_leverage = sz_leverage sized,
                          tr_positionSize = pi_size p, tr_actualEntryPrice = currentPrice \<rparr>)))))"

text \<open>
  \<open>executeTrade\<close>: the \<open>catch\<close> closes the position when \<open>orderResponse\<close> is set, logs
  and drops whatever the closing throws, and rethrows the error it caught.
\<close>

definition executeTrade ::
  "environment \<Rightarrow> parsed_signal \<Rightarrow> jsnum \<Rightarrow> jsnum \<Rightarrow> trade_result io" where
  "executeTrade env signal portfolioValue portfolioPercentage w =
     (let bybitSymbol = convertSymbolToBybit (pair signal) in
      case executeTrade_place env signal portfolioValue portfolioPercentage w of
        (Inl error, w1) \<Rightarrow> (Inl error, w1)
      | (Inr (currentPrice, sized, orderResponse), w1) \<Rightarrow>
          (case executeTrade_protect env signal currentPrice sized orderResponse w1 of
             (Inr traded, w2) \<Rightarrow> (Inr traded, w2)
           | (Inl error, w2) \<Rightarrow>
               (case emergencyClosePosition env bybitSymbol (direction signal) w2 of
                  (rollback, w3) \<Rightarrow> (Inl error, w3))))"

section \<open>The position manager\<close>

datatype trade_status = PENDING | ACTIVE | COMPLETED | CANCELLED | ERROR

record tp_state =
  level :: int
  price :: jsnum
  filled :: bool

text \<open>
  A \<open>Position\<close>, without \<open>createdAt\<close> and \<open>updatedAt\<close>: the operations modelled here
  write them and never read them.
\<close>

record position =
  pos_id :: string
  pos_symbol :: string
  pos_side :: direction
  pos_size :: jsnum
  pos_entryPrice :: jsnum
  pos_currentPrice :: jsnum
  pos_stopLoss :: jsnum
  pos_takeProfits :: "tp_state list"
  pos_leverage :: jsnum
  pos_pnl :: jsnum
  pos_status :: trade_status

text \<open>The registry \<open>positions\<close>, a \<open>Map\<close> from position id to position.\<close>

type_synonym registry = "string \<rightharpoonup> position"

definition checkPriceHitLevel :: "direction \<Rightarrow> jsnum \<Rightarrow> jsnum \<Rightarrow> jsnum \<Rightarrow> bool" where
  "checkPriceHitLevel side oldPrice newPrice targetPrice =
     (if side = LONG then js_lt oldPrice targetPrice \<and> js_ge newPrice targetPrice
      else js_gt oldPrice targetPrice \<and> js_le newPrice targetPrice)"

text \<open>The \<open>switch\<close> of \<open>adjustStopLoss\<close>, which computes \<open>newStopLoss\<close>.\<close>

definition newStopLoss :: "position \<Rightarrow> int \<Rightarrow> jsnum" where
  "newStopLoss position tpLevel =
     (if tpLevel = 1 then pos_entryPrice position
      else if tpLevel = 2 then
        (case find (\<lambda>tp. level tp = 1) (pos_takeProfits position) of
           Some tp1 \<Rightarrow> price tp1
         | None \<Rightarrow> pos_entryPrice position)
      else
        (case find (\<lambda>tp. level tp = tpLevel - 1) (pos_takeProfits position) of
           Some prevTP \<Rightarrow> price prevTP
         | None \<Rightarrow> pos_stopLoss position))"

definition shouldUpdate :: "position \<Rightarrow> jsnum \<Rightarrow> bool" where
  "shouldUpdate position new =
     (if pos_side position = LONG then js_gt new (pos_stopLoss position)
      else js_lt new (pos_stopLoss position))"

text \<open>
  \<open>adjustStopLoss\<close>: the stored stop-loss is written after the exchange has accepted
  the new one; the \<open>catch\<close> logs a failure and leaves the position as it was.
\<close>

definition adjustStopLoss :: "environment \<Rightarrow> position \<Rightarrow> int \<Rightarrow> world \<Rightarrow> position \<times> world" where
  "adjustStopLoss env position tpLevel w =
     (let new = newStopLoss position tpLevel in
      if shouldUpdate position new then
        (case setStopLoss env (pos_symbol position) (pos_side position) new w of
           (Inl error, w') \<Rightarrow> (position, w')
         | (Inr _, w') \<Rightarrow> (position \<lparr> pos_stopLoss := new \<rparr>, w'))
      else (position, w))"

text \<open>
  One round of the \<open>for\<close> loop of \<open>checkTakeProfitHits\<close>, for the take-profit at index
  \<open>i\<close> of the ladder: the level is marked in place, then the stop-loss is adjusted.
\<close>

definition checkTakeProfitHit ::
  "environment \<Rightarrow> jsnum \<Rightarrow> jsnum \<Rightarrow> nat \<Rightarrow> position \<times> world \<Rightarrow> position \<times> world" where
  "checkTakeProfitHit env oldPrice newPrice i pw =
     (case pw of (position, w) \<Rightarrow>
        (let tp = pos_takeProfits position ! i in
         if filled tp then (position, w)
         else if checkPriceHitLevel (pos_side position) oldPrice newPrice (price tp) then
           adjustStopLoss env
             (position \<lparr> pos_takeProfits := (pos_takeProfits position)[i := tp \<lparr> filled := True \<rparr>] \<rparr>)
             (level tp) w
         else (position, w)))"

definition checkTakeProfitHits ::
  "environment \<Rightarrow> position \<Rightarrow> jsnum \<Rightarrow> jsnum \<Rightarrow> world \<Rightarrow> position \<times> world" where
  "checkTakeProfitHits env position oldPrice newPrice w =
     fold (checkTakeProfitHit env oldPrice newPrice) [0 ..< length (pos_takeProfits position)]
       (position, w)"

text \<open>
  \<open>updatePosition\<close> returns the position (\<open>None\<close> for \<open>null\<close>); the registry holds the
  same object, so it is returned updated.
\<close>

definition updatePosition ::
  "environment \<Rightarrow> string \<Rightarrow> registry \<times> world \<Rightarrow> position option \<times> registry \<times> world" where
  "updatePosition env positionId rw =
     (case rw of (positions, w) \<Rightarrow>
        (case positions positionId of
           None \<Rightarrow> (None, positions, w)
         | Some position \<Rightarrow>
             (case getPosition env (pos_symbol position) w of
                (Inl error, w') \<Rightarrow> (Some position, positions, w')
              | (Inr None, w') \<Rightarrow>
                  (let closed = position \<lparr> pos_status := COMPLETED \<rparr> in
                   (Some closed, positions(positionId \<mapsto> closed), w'))
              | (Inr (Some bybitPosition), w') \<Rightarrow>
                  (let oldPrice = pos_currentPrice position;
                       priced = position \<lparr> pos_currentPrice := pi_markPrice bybitPosition,
                                           pos_pnl := pi_unrealisedPnl bybitPosition \<rparr>
                   in case checkTakeProfitHits env priced oldPrice (pos_currentPrice priced) w' of
                        (updated, w'') \<Rightarrow>
                          (Some updated, positions(positionId \<mapsto> updated), w'')))))"

text \<open>
  \<open>closePosition\<close>: \<open>cancelStopLoss\<close> never throws; the \<open>catch\<close> answers \<open>false\<close> when
  the market order does.
\<close>

definition closePosition ::
  "environment \<Rightarrow> string \<Rightarrow> registry \<times> world \<Rightarrow> bool \<times> registry \<times> world" where
  "closePosition env positionId rw =
     (case rw of (positions, w) \<Rightarrow>
        (case positions positionId of
           None \<Rightarrow> (False, positions, w)
         | Some position \<Rightarrow>
             if pos_status position \<noteq> ACTIVE then (False, positions, w)
             else
               (case cancelStopLoss env (pos_symbol position) w of
                  (cancelled, w1) \<Rightarrow>
                    (let orderSide = (if pos_side position = LONG then Sell else Buy) in
                     case placeMarketOrder env
                            \<lparr> to_symbol = pos_symbol position, to_side = orderSide,
                              to_orderType = MarketOrder, to_qty = pos_size position \<rparr> w1 of
                       (Inl error, w2) \<Rightarrow> (False, positions, w2)
                     | (Inr placed, w2) \<Rightarrow>
                         (True,
                          positions(positionId \<mapsto> position \<lparr> pos_status := COMPLETED \<rparr>),
                          w2)))))"

text \<open>Any sequence of the manager's operations on the registry, in any order.\<close>

datatype manager_op = Update string | Close string

fun manager_step :: "environment \<Rightarrow> manager_op \<Rightarrow> registry \<times> world \<Rightarrow> registry \<times> world" where
  "manager_step env (Update positionId) rw = snd (updatePosition env positionId rw)"
| "manager_step env (Close positionId) rw = snd (closePosition env positionId rw)"

definition manager_run ::
  "environment \<Rightarrow> manager_op list \<Rightarrow> registry \<times> world \<Rightarrow> registry \<times> world" where
  "manager_run env ops rw = fold (manager_step env) ops rw"

section \<open>The request dispatcher\<close>

text \<open>
  \<open>withRateLimit\<close> and \<open>processRequestQueue\<close> run on JavaScript's single thread: a
  piece of code runs to its next \<open>await\<close>, and resumes when the awaited promise
  settles. The dispatcher is therefore a transition system. Its state holds the three
  fields of the class, the activations of \<open>processRequestQueue\<close> that are suspended at an
  \<open>await\<close>, and two histories kept for stating properties: the wrappers started, with
  the \<open>lastRequestTime\<close> recorded for each, and the settlements handed to callers.

  A queued wrapper is named by the caller whose promise it settles. A settlement is
  \<open>Inr result\<close> or \<open>Inl error\<close>.
\<close>

definition MIN_REQUEST_INTERVAL :: int where
  "MIN_REQUEST_INTERVAL = 100"

text \<open>
  Where an activation of \<open>processRequestQueue\<close> is suspended: at the timer, which is
  due when the clock reads the given time, or at \<open>await request()\<close> for the wrapper of
  the given caller.
\<close>

datatype drain = AwaitingTimer int | AwaitingRequest nat

record 'r dispatcher =
  requestQueue :: "nat list"
  isProcessingQueue :: bool
  lastRequestTime :: int
  drains :: "drain list"
  started :: "(nat \<times> int) list"
  delivered :: "(nat \<times> (error + 'r)) list"

definition initial :: "'r dispatcher" where
  "initial = \<lparr> requestQueue = [], isProcessingQueue = False, lastRequestTime = 0,
               drains = [], started = [], delivered = [] \<rparr>"

text \<open>
  The wrapper that \<open>withRateLimit\<close> queues, from the settlement of \<open>fn()\<close> on: what it
  settles the caller's promise with (\<open>resolve(result)\<close> or \<open>reject(error)\<close>), and how
  its own promise settles.
\<close>

definition wrapper :: "error + 'r \<Rightarrow> (error + 'r) \<times> (error + 'r)" where
  "wrapper fn_settled =
     (case fn_settled of
        Inr result \<Rightarrow> (Inr result, Inr result)
      | Inl error \<Rightarrow> (Inl error, Inl error))"

text \<open>
  \<open>processRequestQueue\<close> from \<open>requestQueue.shift()\<close> to \<open>await request()\<close>, where \<open>t\<close> is
  what \<open>Date.now()\<close> returns for \<open>lastRequestTime\<close>. With nothing to shift the loop
  comes back to its test, which ends it.
\<close>

definition dispatch_head :: "int \<Rightarrow> 'r dispatcher \<Rightarrow> 'r dispatcher \<times> drain option" where
  "dispatch_head t s =
     (case requestQueue s of
        [] \<Rightarrow> (s \<lparr> isProcessingQueue := False \<rparr>, None)
      | request # rest \<Rightarrow>
          (s \<lparr> requestQueue := rest, lastRequestTime := t,
               started := started s @ [(request, t)] \<rparr>,
           Some (AwaitingRequest request)))"

text \<open>
  \<open>processRequestQueue\<close> from the test of its \<open>while\<close> loop to the next \<open>await\<close> or to
  its end, where \<open>now\<close> is the first reading of \<open>Date.now()\<close> and \<open>t\<close> the second.
\<close>

definition loop_head :: "int \<Rightarrow> int \<Rightarrow> 'r dispatcher \<Rightarrow> 'r dispatcher \<times> drain option" where
  "loop_head now t s =
     (if requestQueue s = [] then (s \<lparr> isProcessingQueue := False \<rparr>, None)
      else
        (let timeSinceLastRequest = now - lastRequestTime s in
         if timeSinceLastRequest < MIN_REQUEST_INTERVAL
         then (s, Some (AwaitingTimer (now + (MIN_REQUEST_INTERVAL - timeSinceLastRequest))))
         else dispatch_head t s))"

text \<open>The activation at index \<open>k\<close> goes on to its next suspension, or ends.\<close>

definition resume :: "nat \<Rightarrow> 'r dispatcher \<times> drain option \<Rightarrow> 'r dispatcher" where
  "resume k sd =
     (case sd of
        (s, None) \<Rightarrow> s \<lparr> drains := take k (drains s) @ drop (Suc k) (drains s) \<rparr>
      | (s, Some d) \<Rightarrow> s \<lparr> drains := (drains s)[k := d] \<rparr>)"

text \<open>
  The events: a caller \<open>c\<close> calls \<open>withRateLimit\<close>; the timer of activation \<open>k\<close> fires;
  the operation of caller \<open>c\<close>, awaited by activation \<open>k\<close>, settles. Each event carries
  the readings of \<open>Date.now()\<close> that the code makes before its next \<open>await\<close>. An event
  that cannot happen in a state has no successor.

  A settlement's two effects, the caller's promise being settled and the loop going on,
  are one event: no code of the dispatcher runs between them, and a call of
  \<open>withRateLimit\<close> made between them finds \<open>isProcessingQueue\<close> set, as it does just
  before the settlement.
\<close>

datatype 'r event =
    Enqueue nat int int
  | TimerFired nat int
  | Settled nat nat "error + 'r" int int

fun step :: "'r dispatcher \<Rightarrow> 'r event \<Rightarrow> 'r dispatcher option" where
  "step s (Enqueue c now t) =
     (let s1 = s \<lparr> requestQueue := requestQueue s @ [c] \<rparr> in
      if isProcessingQueue s1 \<or> requestQueue s1 = [] then Some s1
      else
        (case loop_head now t (s1 \<lparr> isProcessingQueue := True \<rparr>) of
           (s2, None) \<Rightarrow> Some s2
         | (s2, Some d) \<Rightarrow> Some (s2 \<lparr> drains := drains s2 @ [d] \<rparr>)))"
| "step s (TimerFired k t) =
     (if k < length (drains s) then
        (case drains s ! k of
           AwaitingTimer due \<Rightarrow> Some (resume k (dispatch_head t s))
         | AwaitingRequest c \<Rightarrow> None)
      else None)"
| "step s (Settled k c fn_settled now t) =
     (if k < length (drains s) \<and> drains s ! k = AwaitingRequest c then
        Some (resume k
                (loop_head now t (s \<lparr> delivered := delivered s @ [(c, fst (wrapper fn_settled))] \<rparr>)))
      else None)"

fun run :: "'r dispatcher \<Rightarrow> 'r event list \<Rightarrow> 'r dispatcher option" where
  "run s [] = Some s"
| "run s (ev # evs) = (case step s ev of None \<Rightarrow> None | Some s' \<Rightarrow> run s' evs)"

text \<open>
  What the runtime is taken to guarantee about time: \<open>Date.now()\<close> does not go back
  between two readings made without an \<open>await\<close> in between, and a timer set for a delay
  fires when \<open>Date.now()\<close> has advanced by at least that delay.
\<close>

fun timely :: "'r dispatcher \<Rightarrow> 'r event \<Rightarrow> bool" where
  "timely s (Enqueue c now t) = (now \<le> t)"
| "timely s (TimerFired k t) =
     (case drains s ! k of AwaitingTimer due \<Rightarrow> due \<le> t | AwaitingRequest c \<Rightarrow> True)"
| "timely s (Settled k c fn_settled now t) = (now \<le> t)"

fun timely_run :: "'r dispatcher \<Rightarrow> 'r event list \<Rightarrow> bool" where
  "timely_run s [] = True"
| "timely_run s (ev # evs) =
     (timely s ev \<and> (case step s ev of None \<Rightarrow> False | Some s' \<Rightarrow> timely_run s' evs))"

text \<open>The callers that enqueued and the settlements of their operations, in order.\<close>

fun enqueued :: "'r event list \<Rightarrow> nat list" where
  "enqueued [] = []"
| "enqueued (Enqueue c now t # evs) = c # enqueued evs"
| "enqueued (ev # evs) = enqueued evs"

fun settlements :: "'r event list \<Rightarrow> (nat \<times> (error + 'r)) list" where
  "settlements [] = []"
| "settlements (Settled k c fn_settled now t # evs) = (c, fn_settled) # settlements evs"
| "settlements (ev # evs) = settlements evs"

fun in_flight :: "drain list \<Rightarrow> nat list" where
  "in_flight [] = []"
| "in_flight (AwaitingRequest c # ds) = c # in_flight ds"
| "in_flight (AwaitingTimer due # ds) = in_flight ds"

text \<open>Consecutive times at least \<open>MIN_REQUEST_INTERVAL\<close> apart.\<close>

fun spaced :: "int list \<Rightarrow> bool" where
  "spaced (a # b # ts) = (a + MIN_REQUEST_INTERVAL \<le> b \<and> spaced (b # ts))"
| "spaced _ = True"

text \<open>
  Letting a dispatcher finish with no further caller: the environment fires the timer
  that is due, and settles the operation in flight as \<open>outcome\<close> says, with \<open>clock\<close>
  giving the readings of \<open>Date.now()\<close> at each step. \<open>work\<close> bounds the steps left.
\<close>

definition next_event :: "(nat \<Rightarrow> error + 'r) \<Rightarrow> int \<Rightarrow> 'r dispatcher \<Rightarrow> 'r event option" where
  "next_event outcome now s =
     (case drains s of
        [] \<Rightarrow> None
      | AwaitingTimer due # ds \<Rightarrow> Some (TimerFired 0 (max due now))
      | AwaitingRequest c # ds \<Rightarrow> Some (Settled 0 c (outcome c) now now))"

fun drive ::
  "nat \<Rightarrow> (nat \<Rightarrow> error + 'r) \<Rightarrow> (nat \<Rightarrow> int) \<Rightarrow> 'r dispatcher \<Rightarrow> 'r dispatcher" where
  "drive 0 outcome clock s = s"
| "drive (Suc n) outcome clock s =
     (case next_event outcome (clock n) s of
        None \<Rightarrow> s
      | Some ev \<Rightarrow> (case step s ev of None \<Rightarrow> s | Some s' \<Rightarrow> drive n outcome clock s'))"

definition work :: "'r dispatcher \<Rightarrow> nat" where
  "work s =
     2 * length (requestQueue s) +
     (case drains s of [] \<Rightarrow> 0 | AwaitingTimer due # ds \<Rightarrow> 1 | AwaitingRequest c # ds \<Rightarrow> 2)"

section \<open>Notions for stating the properties\<close>





text \<open>The orders that \<open>cancelStopLoss\<close> sets out to cancel.\<close>

definition listed_stop_loss_orders :: "environment \<Rightarrow> string \<Rightarrow> world \<Rightarrow> order_row list" where
  "listed_stop_loss_orders env bybitSymbol w =
     (case fst (makeRequest env (open_orders_request bybitSymbol) w) of
        Inl error \<Rightarrow> []
      | Inr result \<Rightarrow> (case stop_loss_orders result of None \<Rightarrow> [] | Some rows \<Rightarrow> rows))"

text \<open>
  The loop of \<open>cancelStopLoss\<close>, entered in the world \<open>w\<close> with the list \<open>orders\<close>,
  reaches the order at index \<open>i\<close> after the cancellations of the orders before it:
  whether the exchange then accepts the cancellation of that order.
\<close>

definition cancellation_accepted ::
  "environment \<Rightarrow> string \<Rightarrow> order_row list \<Rightarrow> world \<Rightarrow> nat \<Rightarrow> bool" where
  "cancellation_accepted env bybitSymbol orders w i =
     (case fst (makeRequest env (cancel_request bybitSymbol (row_orderId (orders ! i)))
                  (w @ map (\<lambda>order. Fetch (cancel_request bybitSymbol (row_orderId order)))
                         (take i orders))) of
        Inl error \<Rightarrow> False
      | Inr result \<Rightarrow> True)"


text \<open>
  The shape of a dispatcher's state: at most one activation of \<open>processRequestQueue\<close>
  is suspended, \<open>isProcessingQueue\<close> is set exactly while there is one, requests wait in
  the queue only while it is set, and the wrappers started are those whose callers
  have their settlement, followed by the one in flight.
\<close>

definition consistent :: "'r dispatcher \<Rightarrow> bool" where
  "consistent s =
     (length (drains s) \<le> 1 \<and>
      (isProcessingQueue s \<longleftrightarrow> drains s \<noteq> []) \<and>
      (requestQueue s = [] \<or> isProcessingQueue s) \<and>
      map fst (started s) = map fst (delivered s) @ in_flight (drains s))"



section \<open>Example inputs\<close>

definition long_signal :: "real \<Rightarrow> real \<Rightarrow> parsed_signal" where
  "long_signal e sl =
     \<lparr> pair = ''ID/USDT'', direction = LONG, entryZone = Price (Num e), sig_stopLoss = Num sl,
       sig_takeProfits = [\<lparr> tp_level = 1, tp_price = Num (e + 2) \<rparr>,
                          \<lparr> tp_level = 2, tp_price = Num (e + 4) \<rparr>,
                          \<lparr> tp_level = 3, tp_price = Num (e + 6) \<rparr>],
       confidence = Num 95 \<rparr>"


text \<open>An accepted HTTP response carrying an envelope.\<close>

definition ok_response :: "int \<Rightarrow> string \<Rightarrow> payload \<Rightarrow> string \<Rightarrow> http_response" where
  "ok_response retCode retMsg result raw =
     \<lparr> ok = True, status = 200, statusText = ''OK'', responseText = raw,
       json = Envelope retCode retMsg result \<rparr>"

text \<open>
  An exchange that answers every set-leverage request with the given response and any
  other request as \<open>env\<close> does.
\<close>

definition answering_leverage :: "http_response \<Rightarrow> environment \<Rightarrow> environment" where
  "answering_leverage response env =
     \<lparr> fetch = (\<lambda>w. if w = [] then fetch env w
                    else (case last w of
                            Fetch req \<Rightarrow>
                              if endpoint req = ''/v5/position/set-leverage''
                              then Responded response else fetch env w
                          | Sleep ms \<Rightarrow> fetch env w)) \<rparr>"

text \<open>
  An exchange given by a script: the answer to a request depends on the request and on
  how many requests to its endpoint there have been, this one included.
\<close>

definition endpoint_count :: "string \<Rightarrow> world \<Rightarrow> nat" where
  "endpoint_count ep w =
     length (filter (\<lambda>e. case e of Fetch req \<Rightarrow> endpoint req = ep | Sleep ms \<Rightarrow> False) w)"

definition scripted :: "(request \<Rightarrow> nat \<Rightarrow> fetch_result) \<Rightarrow> environment" where
  "scripted answer =
     \<lparr> fetch = (\<lambda>w. if w = [] then FetchFailed ''no request''
                    else (case last w of
                            Fetch req \<Rightarrow> answer req (endpoint_count (endpoint req) w)
                          | Sleep ms \<Rightarrow> FetchFailed ''no request'')) \<rparr>"

definition live_position :: "real \<Rightarrow> real \<Rightarrow> position_info" where
  "live_position sz mark =
     \<lparr> pi_symbol = ''IDUSDT'', pi_side = ''Buy'', pi_size = Num sz, pi_entryPrice = Num 100,
       pi_markPrice = Num mark, pi_unrealisedPnl = Num 0, pi_leverage = Num 20,
       pi_positionStatus = ''Normal'' \<rparr>"

text \<open>
  An exchange that accepts the leverage and the orders, reports a position of size 5,
  and rejects every stop-loss with code 10001. When \<open>vanishing\<close>, the position is gone
  from the second position query on.
\<close>

definition rejecting_stop_loss :: "bool \<Rightarrow> environment" where
  "rejecting_stop_loss vanishing =
     scripted (\<lambda>req n.
       if endpoint req = ''/v5/position/list''
       then Responded (ok_response 0 ''OK''
              (PositionList (if vanishing \<and> 1 < n then [] else [live_position 5 100])) ''{}'')
       else if endpoint req = ''/v5/position/trading-stop''
       then Responded (ok_response 10001 ''params error'' OtherObject ''{10001}'')
       else if endpoint req = ''/v5/order/create''
       then Responded (ok_response 0 ''OK'' (OrderCreated ''order-1'' []) ''{}'')
       else Responded (ok_response 0 ''OK'' OtherObject ''{}''))"

text \<open>
  The effects of \<open>executeTrade\<close> for the signal \<open>long_signal 100 98\<close> with portfolio 1000
  and risk 1%, up to the third rejected stop-loss.
\<close>

definition failed_stop_loss_trace :: world where
  "failed_stop_loss_trace =
     [Fetch (leverage_request ''IDUSDT'' (Num 20)),
      Fetch (market_order_request ''IDUSDT'' Buy (Num 5)),
      Sleep 3000,
      Fetch (position_request ''IDUSDT''),
      Fetch (stop_loss_request ''IDUSDT'' (Num 98)),
      Sleep 1000,
      Fetch (stop_loss_request ''IDUSDT'' (Num 98)),
      Sleep 2000,
      Fetch (stop_loss_request ''IDUSDT'' (Num 98))]"

text \<open>
  The position of the specification's example: LONG, entry 100, stop-loss 98,
  take-profits at 102, 104 and 106.
\<close>

definition example_position :: position where
  "example_position =
     \<lparr> pos_id = ''ID/USDT_1'', pos_symbol = ''ID/USDT'', pos_side = LONG, pos_size = Num 5,
       pos_entryPrice = Num 100, pos_currentPrice = Num 100, pos_stopLoss = Num 98,
       pos_takeProfits = [\<lparr> level = 1, price = Num 102, filled = False \<rparr>,
                          \<lparr> level = 2, price = Num 104, filled = False \<rparr>,
                          \<lparr> level = 3, price = Num 106, filled = False \<rparr>],
       pos_leverage = Num 20, pos_pnl = Num 0, pos_status = ACTIVE \<rparr>"

definition example_registry :: registry where
  "example_registry = [''ID/USDT_1'' \<mapsto> example_position]"


text \<open>
  An exchange that lists two orders with a stop-loss and, between them, one without,
  accepts cancellations, and accepts or rejects (code 110007) every new order.
\<close>

definition closing_exchange :: "bool \<Rightarrow> environment" where
  "closing_exchange accepting =
     scripted (\<lambda>req n.
       if endpoint req = ''/v5/order/realtime''
       then Responded (ok_response 0 ''OK''
              (OrderList [\<lparr> row_orderId = ''sl-1'', row_orderType = ''Market'',
                             row_stopLoss = Some ''98'' \<rparr>,
                          \<lparr> row_orderId = ''tp-1'', row_orderType = ''Limit'',
                             row_stopLoss = Some [] \<rparr>,
                          \<lparr> row_orderId = ''sl-2'', row_orderType = ''Market'',
                             row_stopLoss = Some ''97'' \<rparr>]) ''{}'')
       else if endpoint req = ''/v5/order/create'' \<and> \<not> accepting
       then Responded (ok_response 110007 ''insufficient balance'' OtherObject ''{110007}'')
       else if endpoint req = ''/v5/order/create''
       then Responded (ok_response 0 ''OK'' (OrderCreated ''close-1'' []) ''{}'')
       else Responded (ok_response 0 ''OK'' OtherObject ''{}''))"

definition close_trace :: world where
  "close_trace =
     [Fetch (open_orders_request ''IDUSDT''),
      Fetch (cancel_request ''IDUSDT'' ''sl-1''),
      Fetch (cancel_request ''IDUSDT'' ''sl-2''),
      Fetch (market_order_request ''IDUSDT'' Sell (Num 5))]"

text \<open>
  Three callers enqueue operations one after the other; the first operation succeeds,
  the second fails, the third succeeds.
\<close>

definition example_events :: "string event list" where
  "example_events =
     [Enqueue 1 1000 1000, Enqueue 2 1001 1001, Enqueue 3 1002 1002,
      Settled 0 1 (Inr ''first'') 1040 1040,
      TimerFired 0 1100,
      Settled 0 2 (Inl (NetworkError ''down'')) 1130 1130,
      TimerFired 0 1205,
      Settled 0 3 (Inr ''third'') 1300 1300]"

text \<open>
  Two callers enqueue operations; the timer that the drain sets for the 60 ms left
  fires when \<open>Date.now()\<close> has advanced by 59.
\<close>

definition early_timer_events :: "string event list" where
  "early_timer_events =
     [Enqueue 1 1000 1000, Enqueue 2 1001 1001,
      Settled 0 1 (Inr ''first'') 1040 1040,
      TimerFired 0 1099,
      Settled 0 2 (Inr ''second'') 1150 1150]"

text \<open>The dispatcher after the three calls of \<open>withRateLimit\<close>.\<close>

definition queued_state :: "string dispatcher" where
  "queued_state =
     \<lparr> requestQueue = [2, 3], isProcessingQueue = True, lastRequestTime = 1000,
       drains = [AwaitingRequest 1], started = [(1, 1000)], delivered = [] \<rparr>"

definition second_fails :: "nat \<Rightarrow> error + string" where
  "second_fails c = (if c = 2 then Inl (NetworkError ''down'') else Inr ''done'')"

section \<open>Properties of position sizing\<close>

subsection \<open>Rounding\<close>

text \<open>Unfolding the rounding of a given rational.\<close>

lemmas fl_eval =
  fl_def nearest_def scaled_def binade_def binade_up.simps binade_down.simps pow2_def
  round_even_def Let_def







text \<open>Rounding gives a number or an infinity, and keeps the sign.\<close>

lemma fl_not_NaN: "fl x \<noteq> NaN"
  by (simp add: fl_def nearest_def scaled_def)







subsection \<open>Signs\<close>

lemma js_min_Num: "js_min (Num a) (Num b) = Num (min a b)"
  by (simp add: js_min_def min_def)

lemma js_max_Num: "js_max (Num a) (Num b) = Num (max a b)"
  by (simp add: js_max_def max_def)










subsection \<open>The sizing\<close>


text \<open>
  The sizing of the signal \<open>long_signal 100 98\<close> with portfolio 1000 and risk 1%: every
  intermediate result is a double, but for 80% of the portfolio, which rounds to 800.
\<close>

lemma sizing_100_98:
  assumes "entryZone signal = Price (Num 100)" and "sig_stopLoss signal = Num 98"
  shows "calculatePositionSize signal (Num 1000) (Num 1) currentPrice =
           \<lparr> sz_size = Num 5, sz_leverage = Num 20 \<rparr>"
  using assms
  by (simp add: calculatePositionSize_def js_sub_def js_min_def js_max_def round6_def fl_eval)









section \<open>Properties of the client\<close>

text \<open>Unfolding the client's operations on a scripted exchange.\<close>

lemmas client_eval =
  executeTrade_def executeTrade_place_def executeTrade_protect_def emergencyClosePosition_def
  setLeverage_def placeMarketOrder_def getPosition_def setStopLoss_def setTakeProfits_def
  getMarketPrice_def cancelStopLoss_def
  makeRequest_def makeRawRequest_def handleResponse_def handleResponse_try_def
  io_bind_def io_return_def io_throw_def io_catch_def sleep_def Let_def
  scripted_def endpoint_count_def ok_response_def
  position_request_def leverage_request_def market_order_request_def stop_loss_request_def
  take_profit_request_def open_orders_request_def cancel_request_def ticker_request_def
  js_gt_def js_le_def js_ge_def sizing_100_98

subsection \<open>Response codes\<close>

lemma handleResponse_ok_envelope:
  "handleResponse (ok_response retCode retMsg result raw) =
     (if retCode = 0 \<or> retCode = 110043 \<or> retCode = 34040 then Inr result
      else Inl (ParseFailed raw))"
  by (simp add: handleResponse_def handleResponse_try_def ok_response_def)

lemma handleResponse_Inr_iff:
  "handleResponse response = Inr result \<longleftrightarrow>
     ok response \<and> (\<exists>retCode retMsg. json response = Envelope retCode retMsg result \<and>
        (retCode = 0 \<or> retCode = 110043 \<or> retCode = 34040))"
  by (auto simp add: handleResponse_def handleResponse_try_def split: json_body.splits)

lemma makeRequest_answering_other:
  "endpoint req \<noteq> ''/v5/position/set-leverage'' \<Longrightarrow>
   makeRequest (answering_leverage response env) req = makeRequest env req"
  by (rule ext) (simp add: makeRequest_def makeRawRequest_def answering_leverage_def Let_def
      split: list.splits)

lemma makeRequest_answering_leverage:
  "makeRequest (answering_leverage response env) (leverage_request symb lev) w =
     (handleResponse response, w @ [Fetch (leverage_request symb lev)])"
  by (simp add: makeRequest_def makeRawRequest_def answering_leverage_def Let_def
      leverage_request_def split: list.splits)

lemma getPosition_answering:
  "getPosition (answering_leverage response env) = getPosition env"
  by (rule ext) (simp add: getPosition_def makeRequest_answering_other position_request_def)

lemma placeMarketOrder_answering:
  "placeMarketOrder (answering_leverage response env) = placeMarketOrder env"
  by (rule ext) (simp add: placeMarketOrder_def makeRequest_answering_other market_order_request_def)

lemma setStopLoss_answering:
  "setStopLoss (answering_leverage response env) = setStopLoss env"
  by (rule ext)+ (simp add: setStopLoss_def makeRequest_answering_other stop_loss_request_def)

lemma setTakeProfits_answering:
  "setTakeProfits (answering_leverage response env) = setTakeProfits env"
  by (rule ext)+ (simp add: setTakeProfits_def makeRequest_answering_other take_profit_request_def
      split: list.splits)

lemma getMarketPrice_answering:
  "getMarketPrice (answering_leverage response env) = getMarketPrice env"
  by (rule ext) (simp add: getMarketPrice_def makeRequest_answering_other ticker_request_def)

lemma emergencyClosePosition_answering:
  "emergencyClosePosition (answering_leverage response env) = emergencyClosePosition env"
  by (rule ext)+ (simp add: emergencyClosePosition_def getPosition_answering placeMarketOrder_answering
        cong: option.case_cong if_cong)

lemma stopLossLoop_answering:
  "stopLossLoop (answering_leverage response env) symb dir sl attempt w =
   stopLossLoop env symb dir sl attempt w"
proof (induction "answering_leverage response env" symb dir sl attempt w rule: stopLossLoop.induct)
  case (1 symb dir sl attempt w)
  show ?case
    apply (subst stopLossLoop.simps)
    apply (subst (2) stopLossLoop.simps)
    using 1 by (auto simp add: setStopLoss_answering split: prod.splits sum.splits)
qed

lemma stopLossLoop_answering_fn:
  "stopLossLoop (answering_leverage response env) symb dir sl attempt =
   stopLossLoop env symb dir sl attempt"
  by (rule ext) (rule stopLossLoop_answering)

lemma executeTrade_protect_answering:
  "executeTrade_protect (answering_leverage response env) = executeTrade_protect env"
  by (rule ext)+
     (simp add: executeTrade_protect_def getPosition_answering setTakeProfits_answering
        stopLossLoop_answering_fn cong: option.case_cong if_cong)

lemma setLeverage_answering:
  "handleResponse response = Inr result \<Longrightarrow>
   setLeverage (answering_leverage response env) symb lev w =
     (Inr (), w @ [Fetch (leverage_request (convertSymbolToBybit symb) lev)])"
  by (simp add: setLeverage_def Let_def io_bind_def io_return_def makeRequest_answering_leverage)

lemma executeTrade_place_answering:
  assumes "handleResponse r1 = Inr x1" and "handleResponse r2 = Inr x2"
  shows "executeTrade_place (answering_leverage r1 env) signal pv pct w =
         executeTrade_place (answering_leverage r2 env) signal pv pct w"
  using assms
  by (simp add: executeTrade_place_def Let_def io_bind_def io_return_def
      getMarketPrice_answering placeMarketOrder_answering setLeverage_answering
      split: entry_zone.splits prod.splits sum.splits)

lemma executeTrade_answering:
  assumes "handleResponse r1 = Inr x1" and "handleResponse r2 = Inr x2"
  shows "executeTrade (answering_leverage r1 env) signal pv pct w =
         executeTrade (answering_leverage r2 env) signal pv pct w"
  by (simp add: executeTrade_def executeTrade_place_answering [OF assms]
      executeTrade_protect_answering emergencyClosePosition_answering
      cong: sum.case_cong prod.case_cong)


text \<open>
  C4. A response that arrives with an accepted HTTP status and an envelope makes
  \<open>handleResponse\<close> return the result exactly when the code is 0, 110043 or 34040, and
  fail for every other code. \<open>executeTrade\<close> on an exchange that answers the
  set-leverage request with code 110043 returns the same outcome, after the same
  requests, as on the exchange that answers it with code 0 and is otherwise the same.
\<close>

theorem handleResponse_idempotent_codes:
  "handleResponse (ok_response retCode retMsg result raw) =
     (if retCode = 0 \<or> retCode = 110043 \<or> retCode = 34040 then Inr result
      else Inl (ParseFailed raw)) \<and>
   (handleResponse response = Inr result \<longleftrightarrow>
      ok response \<and> (\<exists>code msg. json response = Envelope code msg result \<and>
                        (code = 0 \<or> code = 110043 \<or> code = 34040))) \<and>
   setLeverage (answering_leverage (ok_response 110043 msg1 result1 raw1) env) symbol leverage w =
     (Inr (), w @ [Fetch (leverage_request (convertSymbolToBybit symbol) leverage)]) \<and>
   executeTrade (answering_leverage (ok_response 110043 msg1 result1 raw1) env)
       signal portfolioValue portfolioPercentage w =
     executeTrade (answering_leverage (ok_response 0 msg0 result0 raw0) env)
       signal portfolioValue portfolioPercentage w"
proof -
  have not_modified: "handleResponse (ok_response 110043 msg1 result1 raw1) = Inr result1"
    by (simp add: handleResponse_ok_envelope)
  have accepted: "handleResponse (ok_response 0 msg0 result0 raw0) = Inr result0"
    by (simp add: handleResponse_ok_envelope)
  show ?thesis
    using handleResponse_ok_envelope [of retCode retMsg result raw]
      handleResponse_Inr_iff [of response result]
      setLeverage_answering [OF not_modified, of env symbol leverage w]
      executeTrade_answering [OF not_modified accepted,
        of env signal portfolioValue portfolioPercentage w]
    by blast
qed

subsection \<open>Take-profit orders\<close>

lemma makeRequest_world: "snd (makeRequest env req w) = w @ [Fetch req]"
  by (simp add: makeRequest_def makeRawRequest_def Let_def split: fetch_result.splits)

text \<open>
  C10. For an empty ladder \<open>setTakeProfits\<close> sends nothing and returns normally. For a
  non-empty ladder it sends exactly one request: a reduce-only limit order on the side
  that closes the position, for \<open>floor(positionSize)\<close>, at the price of the last entry
  of the ladder; it succeeds or fails as that request does.
\<close>

theorem setTakeProfits_single_order:
  "setTakeProfits env symbol side [] positionSize w = (Inr (), w) \<and>
   snd (setTakeProfits env symbol side (tp # rest) positionSize w) =
     w @ [Fetch \<lparr> endpoint = ''/v5/order/create'', http_method = POST,
                  params = [(''category'', PStr ''linear''), (''symbol'', PStr symbol),
                            (''side'', PStr (if side = LONG then ''Sell'' else ''Buy'')),
                            (''orderType'', PStr ''Limit''),
                            (''qty'', PNumStr (js_floor positionSize)),
                            (''price'', PNumStr (tp_price (last (tp # rest)))),
                            (''timeInForce'', PStr ''GTC''),
                            (''reduceOnly'', PBool True)] \<rparr>] \<and>
   fst (setTakeProfits env symbol side (tp # rest) positionSize w) =
     (case fst (makeRequest env
                  (take_profit_request symbol (if side = LONG then Sell else Buy)
                     (js_floor positionSize) (tp_price (last (tp # rest)))) w) of
        Inl error \<Rightarrow> Inl error
      | Inr accepted \<Rightarrow> Inr ())"
proof -
  let ?req = "take_profit_request symbol (if side = LONG then Sell else Buy)
                (js_floor positionSize) (tp_price (last (tp # rest)))"
  obtain r w' where sent: "makeRequest env ?req w = (r, w')"
    by (cases "makeRequest env ?req w")
  have "w' = snd (makeRequest env ?req w)" using sent by simp
  then have w': "w' = w @ [Fetch ?req]" by (simp only: makeRequest_world)
  have run: "setTakeProfits env symbol side (tp # rest) positionSize w =
               (case r of Inl error \<Rightarrow> Inl error | Inr accepted \<Rightarrow> Inr (), w')"
    using sent
    by (simp add: setTakeProfits_def Let_def io_bind_def io_return_def io_throw_def io_catch_def
        split: sum.splits)
  have empty: "setTakeProfits env symbol side [] positionSize w = (Inr (), w)"
    by (simp add: setTakeProfits_def io_return_def)
  have req: "Fetch ?req =
      Fetch \<lparr> endpoint = ''/v5/order/create'', http_method = POST,
                  params = [(''category'', PStr ''linear''), (''symbol'', PStr symbol),
                            (''side'', PStr (if side = LONG then ''Sell'' else ''Buy'')),
                            (''orderType'', PStr ''Limit''),
                            (''qty'', PNumStr (js_floor positionSize)),
                            (''price'', PNumStr (tp_price (last (tp # rest)))),
                            (''timeInForce'', PStr ''GTC''),
                            (''reduceOnly'', PBool True)] \<rparr>"
    by (simp add: take_profit_request_def)
  show ?thesis
    using empty run sent w' req by simp
qed

subsection \<open>Rollback after a failed stop-loss\<close>

lemma getPosition_world:
  "snd (getPosition env symb w) = w @ [Fetch (position_request (convertSymbolToBybit symb))]"
  using makeRequest_world [of env "position_request (convertSymbolToBybit symb)" w]
  by (auto simp add: getPosition_def Let_def io_bind_def io_return_def io_throw_def
      split: prod.splits sum.splits option.splits)

lemma getPosition_live:
  assumes "getPosition env symb w = (Inr (Some p), w')"
  shows "js_gt (pi_size p) (Num 0)"
proof -
  from assms obtain rows where
    "find (\<lambda>p. pi_symbol p = convertSymbolToBybit symb \<and> js_gt (pi_size p) (Num 0)) rows = Some p"
    by (auto simp add: getPosition_def Let_def io_bind_def io_return_def io_throw_def
        split: prod.splits sum.splits option.splits)
  then show ?thesis by (auto simp add: find_Some_iff)
qed

lemma js_gt_zero_not_eq: "js_gt x (Num 0) \<Longrightarrow> \<not> js_eq x (Num 0)"
  by (cases x) (simp_all add: js_gt_def)

lemma placeMarketOrder_world:
  "snd (placeMarketOrder env order w) =
     w @ [Fetch (market_order_request (convertSymbolToBybit (to_symbol order)) (to_side order)
                   (js_floor (to_qty order)))]"
  using makeRequest_world [of env "market_order_request (convertSymbolToBybit (to_symbol order))
          (to_side order) (js_floor (to_qty order))" w]
  by (auto simp add: placeMarketOrder_def Let_def io_bind_def io_return_def io_throw_def
      split: prod.splits sum.splits option.splits)

lemma emergencyClosePosition_world:
  "snd (emergencyClosePosition env symb dir w) =
     w @ Fetch (position_request (convertSymbolToBybit symb)) #
       (case fst (getPosition env symb w) of
          Inr (Some live) \<Rightarrow>
            [Fetch (market_order_request (convertSymbolToBybit symb)
                      (if dir = LONG then Sell else Buy) (js_floor (pi_size live)))]
        | _ \<Rightarrow> [])"
proof (cases "getPosition env symb w")
  case (Pair r w')
  have w': "w' = w @ [Fetch (position_request (convertSymbolToBybit symb))]"
    using getPosition_world [of env symb w] Pair by simp
  show ?thesis
  proof (cases r)
    case (Inl e)
    with Pair w' show ?thesis
      by (simp add: emergencyClosePosition_def io_bind_def)
  next
    case (Inr found)
    show ?thesis
    proof (cases found)
      case None
      with Pair Inr w' show ?thesis
        by (simp add: emergencyClosePosition_def io_bind_def io_return_def)
    next
      case (Some live)
      define order where
        "order = \<lparr> to_symbol = symb, to_side = (if dir = LONG then Sell else Buy),
                    to_orderType = MarketOrder, to_qty = pi_size live \<rparr>"
      obtain ro wo where placed: "placeMarketOrder env order w' = (ro, wo)"
        by (cases "placeMarketOrder env order w'")
      have "wo = snd (placeMarketOrder env order w')"
        using placed by simp
      then have wo: "wo = w' @ [Fetch (market_order_request (convertSymbolToBybit symb)
                      (if dir = LONG then Sell else Buy) (js_floor (pi_size live)))]"
        by (simp add: placeMarketOrder_world order_def)
      have nz: "\<not> js_eq (pi_size live) (Num 0)"
        using getPosition_live Pair Inr Some js_gt_zero_not_eq by blast
      have "emergencyClosePosition env symb dir w =
              (case ro of Inl e \<Rightarrow> Inl e | Inr x \<Rightarrow> Inr (), wo)"
        using Pair Inr Some nz placed
        by (simp add: emergencyClosePosition_def io_bind_def io_return_def Let_def
            order_def [symmetric] split: sum.splits)
      then show ?thesis
        using Pair Inr Some wo w' by simp
    qed
  qed
qed

lemma stopLossLoop_three_failures:
  assumes "setStopLoss env symb dir sl w2 = (Inl e1, u1)"
    and "setStopLoss env symb dir sl (u1 @ [Sleep 1000]) = (Inl e2, u2)"
    and "setStopLoss env symb dir sl (u2 @ [Sleep 2000]) = (Inl e3, u3)"
  shows "stopLossLoop env symb dir sl 1 w2 = (Inl (StopLossSetFailed e3), u3)"
proof -
  have three: "stopLossLoop env symb dir sl 3 (u2 @ [Sleep 2000]) = (Inl (StopLossSetFailed e3), u3)"
    by (subst stopLossLoop.simps) (simp add: assms)
  have two: "stopLossLoop env symb dir sl 2 (u1 @ [Sleep 1000]) = (Inl (StopLossSetFailed e3), u3)"
    by (subst stopLossLoop.simps) (simp add: assms three)
  show ?thesis
    by (subst stopLossLoop.simps) (simp add: assms two)
qed

text \<open>
  C1, as the code has it. When the market order has been placed, the fill has been
  confirmed and the stop-loss fails on all three attempts, \<open>executeTrade\<close> makes one
  rollback attempt and returns the stop-loss failure, whatever the rollback does. The
  rollback queries the live position once; if the query answers with a live position
  (of size above 0), one market order on the opposite side follows, for the queried
  size floored to a whole unit; otherwise no order follows. Nothing else is sent.
\<close>

theorem executeTrade_stop_loss_rollback:
  assumes placed: "executeTrade_place env signal pv pct w =
                     (Inr (currentPrice, sized, orderResponse), w1)"
    and filled: "getPosition env (convertSymbolToBybit (pair signal)) (w1 @ [Sleep 3000]) =
                   (Inr (Some p), w2)"
    and attempt1: "setStopLoss env (convertSymbolToBybit (pair signal)) (direction signal)
                     (sig_stopLoss signal) w2 = (Inl e1, u1)"
    and attempt2: "setStopLoss env (convertSymbolToBybit (pair signal)) (direction signal)
                     (sig_stopLoss signal) (u1 @ [Sleep 1000]) = (Inl e2, u2)"
    and attempt3: "setStopLoss env (convertSymbolToBybit (pair signal)) (direction signal)
                     (sig_stopLoss signal) (u2 @ [Sleep 2000]) = (Inl e3, u3)"
  shows "executeTrade env signal pv pct w =
           (Inl (StopLossSetFailed e3),
            u3 @ Fetch (position_request (convertSymbolToBybit (convertSymbolToBybit (pair signal)))) #
              (case fst (getPosition env (convertSymbolToBybit (pair signal)) u3) of
                 Inr (Some live) \<Rightarrow>
                   [Fetch (market_order_request
                             (convertSymbolToBybit (convertSymbolToBybit (pair signal)))
                             (if direction signal = LONG then Sell else Buy)
                             (js_floor (pi_size live)))]
               | _ \<Rightarrow> []))"
proof -
  have live: "\<not> js_eq (pi_size p) (Num 0)"
    using getPosition_live [OF filled] js_gt_zero_not_eq by blast
  have loop: "stopLossLoop env (convertSymbolToBybit (pair signal)) (direction signal)
                (sig_stopLoss signal) 1 w2 = (Inl (StopLossSetFailed e3), u3)"
    by (rule stopLossLoop_three_failures [OF attempt1 attempt2 attempt3])
  have protect: "executeTrade_protect env signal currentPrice sized orderResponse w1 =
                   (Inl (StopLossSetFailed e3), u3)"
    using filled live loop
    by (simp add: executeTrade_protect_def Let_def io_bind_def sleep_def)
  obtain r w3 where close:
    "emergencyClosePosition env (convertSymbolToBybit (pair signal)) (direction signal) u3 = (r, w3)"
    by (cases "emergencyClosePosition env (convertSymbolToBybit (pair signal)) (direction signal) u3")
  have "w3 = snd (emergencyClosePosition env (convertSymbolToBybit (pair signal))
                    (direction signal) u3)"
    using close by simp
  then have w3: "w3 = u3 @ Fetch (position_request (convertSymbolToBybit (convertSymbolToBybit (pair signal)))) #
              (case fst (getPosition env (convertSymbolToBybit (pair signal)) u3) of
                 Inr (Some live) \<Rightarrow>
                   [Fetch (market_order_request
                             (convertSymbolToBybit (convertSymbolToBybit (pair signal)))
                             (if direction signal = LONG then Sell else Buy)
                             (js_floor (pi_size live)))]
               | _ \<Rightarrow> [])"
    by (simp only: emergencyClosePosition_world)
  show ?thesis
    using placed protect close w3
    by (simp add: executeTrade_def Let_def)
qed


theorem executeTrade_stop_loss_rollback_witness:
  "executeTrade (rejecting_stop_loss False) (long_signal 100 98) (Num 1000) (Num 1) [] =
     (Inl (StopLossSetFailed (ParseFailed ''{10001}'')),
      failed_stop_loss_trace @
        [Fetch (position_request ''IDUSDT''),
         Fetch (market_order_request ''IDUSDT'' Sell (Num 5))])"
proof -
  let ?env = "rejecting_stop_loss False"
  let ?signal = "long_signal 100 98"
  have placed: "executeTrade_place ?env ?signal (Num 1000) (Num 1) [] =
     (Inr (Num 100, \<lparr> sz_size = Num 5, sz_leverage = Num 20 \<rparr>,
           \<lparr> orderId = Some ''order-1'', resp_symbol = ''IDUSDT'', resp_side = Buy,
             resp_orderType = ''Market'', resp_qty = Num 5, resp_status = ''Created'' \<rparr>),
      take 2 failed_stop_loss_trace)"
    by (simp add: client_eval rejecting_stop_loss_def long_signal_def failed_stop_loss_trace_def)
  have filled: "getPosition ?env (convertSymbolToBybit (pair ?signal))
         (take 2 failed_stop_loss_trace @ [Sleep 3000]) =
       (Inr (Some (live_position 5 100)), take 4 failed_stop_loss_trace)"
    by (simp add: client_eval rejecting_stop_loss_def long_signal_def failed_stop_loss_trace_def
        live_position_def)
  have attempt1: "setStopLoss ?env (convertSymbolToBybit (pair ?signal)) (direction ?signal)
         (sig_stopLoss ?signal) (take 4 failed_stop_loss_trace) =
       (Inl (ParseFailed ''{10001}''), take 5 failed_stop_loss_trace)"
    by (simp add: client_eval rejecting_stop_loss_def long_signal_def failed_stop_loss_trace_def)
  have attempt2: "setStopLoss ?env (convertSymbolToBybit (pair ?signal)) (direction ?signal)
         (sig_stopLoss ?signal) (take 5 failed_stop_loss_trace @ [Sleep 1000]) =
       (Inl (ParseFailed ''{10001}''), take 7 failed_stop_loss_trace)"
    by (simp add: client_eval rejecting_stop_loss_def long_signal_def failed_stop_loss_trace_def)
  have attempt3: "setStopLoss ?env (convertSymbolToBybit (pair ?signal)) (direction ?signal)
         (sig_stopLoss ?signal) (take 7 failed_stop_loss_trace @ [Sleep 2000]) =
       (Inl (ParseFailed ''{10001}''), failed_stop_loss_trace)"
    by (simp add: client_eval rejecting_stop_loss_def long_signal_def failed_stop_loss_trace_def)
  have requery: "getPosition ?env (convertSymbolToBybit (pair ?signal)) failed_stop_loss_trace =
       (Inr (Some (live_position 5 100)),
        failed_stop_loss_trace @ [Fetch (position_request ''IDUSDT'')])"
    by (simp add: client_eval rejecting_stop_loss_def long_signal_def failed_stop_loss_trace_def
        live_position_def)
  have sym: "convertSymbolToBybit (convertSymbolToBybit (pair ?signal)) = ''IDUSDT''"
    by (simp add: long_signal_def)
  have dir: "direction ?signal = LONG"
    by (simp add: long_signal_def)
  show ?thesis
    using executeTrade_stop_loss_rollback [OF placed filled attempt1 attempt2 attempt3]
    by (simp add: requery sym dir live_position_def)
qed

text \<open>
  The claim C1 as stated fails: when the position is gone at the rollback's query, the
  three failed stop-loss attempts are followed by that query alone, and no flattening
  order is sent.
\<close>

theorem executeTrade_stop_loss_rollback_counterexample:
  "executeTrade (rejecting_stop_loss True) (long_signal 100 98) (Num 1000) (Num 1) [] =
     (Inl (StopLossSetFailed (ParseFailed ''{10001}'')),
      failed_stop_loss_trace @ [Fetch (position_request ''IDUSDT'')])"
  by (simp add: client_eval stopLossLoop.simps rejecting_stop_loss_def long_signal_def
      live_position_def failed_stop_loss_trace_def)

section \<open>Properties of the position manager\<close>

lemmas manager_eval =
  manager_run_def updatePosition_def closePosition_def checkTakeProfitHits_def
  checkTakeProfitHit_def adjustStopLoss_def newStopLoss_def shouldUpdate_def
  checkPriceHitLevel_def

subsection \<open>Trailing\<close>
























subsection \<open>Take-profit hits\<close>




subsection \<open>Manual close\<close>

lemma cancellation_accepted_Suc:
  "cancellation_accepted env symb (order # orders) w (Suc i) =
   cancellation_accepted env symb orders
     (w @ [Fetch (cancel_request symb (row_orderId order))]) i"
  by (simp add: cancellation_accepted_def)

text \<open>
  The loop of \<open>cancelStopLoss\<close> sends the cancellations in the order of the list and
  stops after the first one that fails: every cancellation sent but the last was
  accepted, and if an order of the list was not reached, the last one sent has failed.
\<close>

lemma cancel_each_world:
  "\<exists>n\<le>length orders.
     snd (cancel_each env symb orders w) =
       w @ map (\<lambda>order. Fetch (cancel_request symb (row_orderId order))) (take n orders) \<and>
     (\<forall>i. Suc i < n \<longrightarrow> cancellation_accepted env symb orders w i) \<and>
     (n < length orders \<longrightarrow> 0 < n \<and> \<not> cancellation_accepted env symb orders w (n - 1))"
proof (induction orders arbitrary: w)
  case Nil
  show ?case by (simp add: io_return_def)
next
  case (Cons order orders)
  let ?req = "cancel_request symb (row_orderId order)"
  obtain r w1 where sent: "makeRequest env ?req w = (r, w1)"
    by (cases "makeRequest env ?req w")
  have "w1 = snd (makeRequest env ?req w)" using sent by simp
  then have w1: "w1 = w @ [Fetch ?req]" by (simp only: makeRequest_world)
  show ?case
  proof (cases r)
    case (Inl e)
    have first: "\<not> cancellation_accepted env symb (order # orders) w 0"
      using sent Inl by (simp add: cancellation_accepted_def)
    have "snd (cancel_each env symb (order # orders) w) =
               w @ map (\<lambda>order. Fetch (cancel_request symb (row_orderId order)))
                     (take 1 (order # orders))"
      using sent w1 Inl by (simp add: io_bind_def)
    with first show ?thesis
      by (intro exI [of _ 1]) simp
  next
    case (Inr x)
    have first: "cancellation_accepted env symb (order # orders) w 0"
      using sent Inr by (simp add: cancellation_accepted_def)
    obtain n where n: "n \<le> length orders"
      and world: "snd (cancel_each env symb orders w1) =
         w1 @ map (\<lambda>order. Fetch (cancel_request symb (row_orderId order))) (take n orders)"
      and before: "\<forall>i. Suc i < n \<longrightarrow> cancellation_accepted env symb orders w1 i"
      and stopped: "n < length orders \<longrightarrow>
                    0 < n \<and> \<not> cancellation_accepted env symb orders w1 (n - 1)"
      using Cons.IH [of w1] by blast
    have world': "snd (cancel_each env symb (order # orders) w) =
               w @ map (\<lambda>order. Fetch (cancel_request symb (row_orderId order)))
                     (take (Suc n) (order # orders))"
      using sent w1 Inr world by (simp add: io_bind_def)
    have before': "\<forall>i. Suc i < Suc n \<longrightarrow> cancellation_accepted env symb (order # orders) w i"
    proof (intro allI impI)
      fix i assume i: "Suc i < Suc n"
      show "cancellation_accepted env symb (order # orders) w i"
      proof (cases i)
        case 0
        then show ?thesis using first by simp
      next
        case (Suc j)
        then have "Suc j < n" using i by simp
        then show ?thesis using before Suc w1 by (simp add: cancellation_accepted_Suc)
      qed
    qed
    have stopped': "Suc n < length (order # orders) \<longrightarrow>
                    0 < Suc n \<and> \<not> cancellation_accepted env symb (order # orders) w (Suc n - 1)"
    proof
      assume "Suc n < length (order # orders)"
      then have less: "n < length orders" by simp
      with stopped have pos: "0 < n" and no: "\<not> cancellation_accepted env symb orders w1 (n - 1)"
        by simp_all
      from pos obtain m where m: "n = Suc m" by (cases n) simp_all
      show "0 < Suc n \<and> \<not> cancellation_accepted env symb (order # orders) w (Suc n - 1)"
        using no m w1 by (simp add: cancellation_accepted_Suc)
    qed
    from n world' before' stopped' show ?thesis
      by (intro exI [of _ "Suc n"]) simp
  qed
qed

text \<open>
  \<open>cancelStopLoss\<close> asks for the open orders, then runs the loop on those with a
  stop-loss; when the query fails or has no list there are none.
\<close>

lemma cancelStopLoss_world:
  "snd (cancelStopLoss env symb w) =
     snd (cancel_each env (convertSymbolToBybit symb)
            (listed_stop_loss_orders env (convertSymbolToBybit symb) w)
            (w @ [Fetch (open_orders_request (convertSymbolToBybit symb))]))"
proof -
  let ?sym = "convertSymbolToBybit symb"
  obtain r w1 where sent: "makeRequest env (open_orders_request ?sym) w = (r, w1)"
    by (cases "makeRequest env (open_orders_request ?sym) w")
  have "w1 = snd (makeRequest env (open_orders_request ?sym) w)" using sent by simp
  then have w1: "w1 = w @ [Fetch (open_orders_request ?sym)]" by (simp only: makeRequest_world)
  show ?thesis
  proof (cases r)
    case (Inl e)
    then show ?thesis
      using sent w1
      by (simp add: cancelStopLoss_def Let_def io_catch_def io_bind_def io_return_def
          listed_stop_loss_orders_def)
  next
    case (Inr result)
    show ?thesis
    proof (cases "stop_loss_orders result")
      case None
      then show ?thesis
        using sent w1 Inr
        by (simp add: cancelStopLoss_def Let_def io_catch_def io_bind_def io_return_def
            io_throw_def listed_stop_loss_orders_def)
    next
      case (Some rows)
      have listed: "listed_stop_loss_orders env ?sym w = rows"
        using sent Inr Some by (simp add: listed_stop_loss_orders_def)
      obtain r2 w2 where each: "cancel_each env ?sym rows w1 = (r2, w2)"
        by (cases "cancel_each env ?sym rows w1")
      have "snd (cancelStopLoss env symb w) = w2"
        using sent Inr Some each
        by (simp add: cancelStopLoss_def Let_def io_catch_def io_bind_def io_return_def
            split: sum.splits)
      then show ?thesis
        using each w1 listed by simp
    qed
  qed
qed

text \<open>
  C9, as the code has it. For a position that is missing or not ACTIVE,
  \<open>closePosition\<close> returns false and does nothing. For an ACTIVE position it asks for
  the open orders and sends a cancellation for each one that has a stop-loss, in the
  order of the list, stopping after the first cancellation that fails (so all of them
  are cancelled when every cancellation is accepted); then it sends one market order on
  the opposite side for the tracked size floored to a whole unit. It returns true and
  marks the position COMPLETED exactly when that order is accepted; when the order fails
  it returns false and the position stays ACTIVE.
\<close>

theorem closePosition_outcome:
  "(case positions positionId of
      None \<Rightarrow> closePosition env positionId (positions, w) = (False, positions, w)
    | Some position \<Rightarrow>
        if pos_status position \<noteq> ACTIVE
        then closePosition env positionId (positions, w) = (False, positions, w)
        else
          (let bybitSymbol = convertSymbolToBybit (pos_symbol position);
               orderSide = (if pos_side position = LONG then Sell else Buy);
               orders = listed_stop_loss_orders env bybitSymbol w;
               w0 = w @ [Fetch (open_orders_request bybitSymbol)];
               w1 = snd (cancelStopLoss env (pos_symbol position) w);
               accepted =
                 (\<exists>placed. fst (placeMarketOrder env
                                  \<lparr> to_symbol = pos_symbol position, to_side = orderSide,
                                    to_orderType = MarketOrder, to_qty = pos_size position \<rparr>
                                  w1) = Inr placed)
           in closePosition env positionId (positions, w) =
                (accepted,
                 if accepted
                 then positions(positionId \<mapsto> position \<lparr> pos_status := COMPLETED \<rparr>)
                 else positions,
                 w1 @ [Fetch (market_order_request bybitSymbol orderSide
                                (js_floor (pos_size position)))]) \<and>
              (\<exists>n\<le>length orders.
                 w1 = w0 @ map (\<lambda>order. Fetch (cancel_request bybitSymbol (row_orderId order)))
                            (take n orders) \<and>
                 (\<forall>i. Suc i < n \<longrightarrow> cancellation_accepted env bybitSymbol orders w0 i) \<and>
                 (n < length orders \<longrightarrow>
                    0 < n \<and> \<not> cancellation_accepted env bybitSymbol orders w0 (n - 1)))))"
proof (cases "positions positionId")
  case None
  then show ?thesis by (simp add: closePosition_def)
next
  case (Some position)
  show ?thesis
  proof (cases "pos_status position = ACTIVE")
    case False
    with Some show ?thesis by (simp add: closePosition_def)
  next
    case True
    let ?sym = "convertSymbolToBybit (pos_symbol position)"
    let ?side = "if pos_side position = LONG then Sell else Buy"
    let ?order = "\<lparr> to_symbol = pos_symbol position, to_side = ?side,
                     to_orderType = MarketOrder, to_qty = pos_size position \<rparr>"
    let ?orders = "listed_stop_loss_orders env ?sym w"
    let ?w0 = "w @ [Fetch (open_orders_request ?sym)]"
    obtain c w1 where cancelled: "cancelStopLoss env (pos_symbol position) w = (c, w1)"
      by (cases "cancelStopLoss env (pos_symbol position) w")
    obtain r w2 where placed: "placeMarketOrder env ?order w1 = (r, w2)"
      by (cases "placeMarketOrder env ?order w1")
    have "w2 = snd (placeMarketOrder env ?order w1)" using placed by simp
    then have w2: "w2 = w1 @ [Fetch (market_order_request ?sym ?side (js_floor (pos_size position)))]"
      by (simp add: placeMarketOrder_world)
    have w1: "w1 = snd (cancelStopLoss env (pos_symbol position) w)"
      using cancelled by simp
    have close: "closePosition env positionId (positions, w) =
            ((\<exists>x. r = Inr x),
             if (\<exists>x. r = Inr x)
             then positions(positionId \<mapsto> position \<lparr> pos_status := COMPLETED \<rparr>)
             else positions,
             w2)"
      using Some True cancelled placed
      by (cases r) (simp_all add: closePosition_def Let_def)
    have loop: "w1 = snd (cancel_each env ?sym ?orders ?w0)"
      using w1 by (simp only: cancelStopLoss_world)
    have phase: "\<exists>n\<le>length ?orders.
                 w1 = ?w0 @ map (\<lambda>order. Fetch (cancel_request ?sym (row_orderId order)))
                             (take n ?orders) \<and>
                 (\<forall>i. Suc i < n \<longrightarrow> cancellation_accepted env ?sym ?orders ?w0 i) \<and>
                 (n < length ?orders \<longrightarrow>
                    0 < n \<and> \<not> cancellation_accepted env ?sym ?orders ?w0 (n - 1))"
      using cancel_each_world [of ?orders env ?sym ?w0] by (simp only: loop)
    have first: "closePosition env positionId (positions, w) =
                ((\<exists>placed. fst (placeMarketOrder env ?order w1) = Inr placed),
                 if (\<exists>placed. fst (placeMarketOrder env ?order w1) = Inr placed)
                 then positions(positionId \<mapsto> position \<lparr> pos_status := COMPLETED \<rparr>)
                 else positions,
                 w1 @ [Fetch (market_order_request ?sym ?side (js_floor (pos_size position)))])"
      using close placed w2 by simp
    show ?thesis
      using first phase
      by (simp only: Some True option.case Let_def w1 [symmetric] not_not refl if_False
          simp_thms)
  qed
qed

lemma close_cancel_phase:
  "cancelStopLoss (closing_exchange True) ''ID/USDT'' [] = (Inr (), take 3 close_trace)"
  by (simp add: client_eval closing_exchange_def close_trace_def)

lemma close_order_placed:
  "placeMarketOrder (closing_exchange True)
      \<lparr> to_symbol = ''ID/USDT'', to_side = Sell, to_orderType = MarketOrder, to_qty = Num 5 \<rparr>
      (take 3 close_trace) =
     (Inr \<lparr> orderId = Some ''close-1'', resp_symbol = ''IDUSDT'', resp_side = Sell,
            resp_orderType = ''Market'', resp_qty = Num 5, resp_status = ''Created'' \<rparr>,
      close_trace)"
  by (simp add: client_eval closing_exchange_def close_trace_def)

lemma close_listed:
  "listed_stop_loss_orders (closing_exchange True) ''IDUSDT'' [] =
     [\<lparr> row_orderId = ''sl-1'', row_orderType = ''Market'', row_stopLoss = Some ''98'' \<rparr>,
      \<lparr> row_orderId = ''sl-2'', row_orderType = ''Market'', row_stopLoss = Some ''97'' \<rparr>]"
  by (simp add: listed_stop_loss_orders_def client_eval closing_exchange_def)

text \<open>
  The example position is closed on an exchange that lists two orders with a stop-loss
  and accepts everything: both are cancelled, in the order listed, before the closing
  order is sent.
\<close>

theorem closePosition_outcome_witness:
  "listed_stop_loss_orders (closing_exchange True) ''IDUSDT'' [] =
     [\<lparr> row_orderId = ''sl-1'', row_orderType = ''Market'', row_stopLoss = Some ''98'' \<rparr>,
      \<lparr> row_orderId = ''sl-2'', row_orderType = ''Market'', row_stopLoss = Some ''97'' \<rparr>] \<and>
   closePosition (closing_exchange True) ''ID/USDT_1'' (example_registry, []) =
     (True, example_registry(''ID/USDT_1'' \<mapsto> example_position \<lparr> pos_status := COMPLETED \<rparr>),
      [Fetch (open_orders_request ''IDUSDT''),
       Fetch (cancel_request ''IDUSDT'' ''sl-1''),
       Fetch (cancel_request ''IDUSDT'' ''sl-2''),
       Fetch (market_order_request ''IDUSDT'' Sell (Num 5))])"
proof -
  have registered: "example_registry ''ID/USDT_1'' = Some example_position"
    by (simp add: example_registry_def)
  have fields: "pos_status example_position = ACTIVE" "pos_symbol example_position = ''ID/USDT''"
    "pos_side example_position = LONG" "pos_size example_position = Num 5"
    by (simp_all add: example_position_def)
  have trace: "take 3 close_trace @ [Fetch (market_order_request ''IDUSDT'' Sell (Num 5))] =
               [Fetch (open_orders_request ''IDUSDT''),
                Fetch (cancel_request ''IDUSDT'' ''sl-1''),
                Fetch (cancel_request ''IDUSDT'' ''sl-2''),
                Fetch (market_order_request ''IDUSDT'' Sell (Num 5))]"
    by (simp add: close_trace_def)
  show ?thesis
    using closePosition_outcome [where positions = example_registry and positionId = "''ID/USDT_1''"
        and env = "closing_exchange True" and w = "[]"]
    by (simp add: registered fields close_cancel_phase close_order_placed close_listed trace
        Let_def)
qed

text \<open>
  The claim C9 as stated fails: the example position is in the registry and ACTIVE, the
  exchange rejects the closing order, and \<open>closePosition\<close> returns false and leaves the
  registry as it was.
\<close>

theorem closePosition_outcome_counterexample:
  "example_registry ''ID/USDT_1'' = Some example_position \<and>
   pos_status example_position = ACTIVE \<and>
   closePosition (closing_exchange False) ''ID/USDT_1'' (example_registry, []) =
     (False, example_registry, close_trace)"
  by (simp add: manager_eval client_eval closing_exchange_def example_registry_def
      example_position_def close_trace_def)


section \<open>Properties of the request dispatcher\<close>

lemmas dispatcher_eval =
  initial_def loop_head_def dispatch_head_def resume_def wrapper_def MIN_REQUEST_INTERVAL_def
  Let_def next_event_def work_def

subsection \<open>The shape of the state\<close>

lemma consistent_initial: "consistent initial"
  by (simp add: consistent_def initial_def)

lemma single_drain:
  assumes "consistent s" and "k < length (drains s)"
  shows "k = 0 \<and> drains s = [drains s ! 0]"
  using assms by (cases "drains s") (auto simp add: consistent_def)

lemma loop_head_cases:
  "loop_head now t s =
     (if requestQueue s = [] then (s \<lparr> isProcessingQueue := False \<rparr>, None)
      else if now - lastRequestTime s < MIN_REQUEST_INTERVAL
      then (s, Some (AwaitingTimer (lastRequestTime s + MIN_REQUEST_INTERVAL)))
      else (s \<lparr> requestQueue := tl (requestQueue s), lastRequestTime := t,
                 started := started s @ [(hd (requestQueue s), t)] \<rparr>,
            Some (AwaitingRequest (hd (requestQueue s)))))"
  by (cases "requestQueue s") (simp_all add: loop_head_def dispatch_head_def Let_def)

lemma dispatch_head_cases:
  "dispatch_head t s =
     (if requestQueue s = [] then (s \<lparr> isProcessingQueue := False \<rparr>, None)
      else (s \<lparr> requestQueue := tl (requestQueue s), lastRequestTime := t,
                 started := started s @ [(hd (requestQueue s), t)] \<rparr>,
            Some (AwaitingRequest (hd (requestQueue s)))))"
  by (cases "requestQueue s") (simp_all add: dispatch_head_def)

lemma step_consistent:
  assumes inv: "consistent s" and step: "step s ev = Some s'"
  shows "consistent s'"
proof (cases ev)
  case (Enqueue c now t)
  show ?thesis
  proof (cases "isProcessingQueue s")
    case True
    with Enqueue step have "s' = s \<lparr> requestQueue := requestQueue s @ [c] \<rparr>"
      by (simp add: Let_def)
    with inv True show ?thesis by (simp add: consistent_def)
  next
    case False
    with inv have idle: "drains s = []" "requestQueue s = []"
      by (auto simp add: consistent_def)
    with Enqueue step False inv show ?thesis
      by (auto simp add: loop_head_cases consistent_def Let_def split: if_splits)
  qed
next
  case (TimerFired k t)
  with step have k: "k < length (drains s)"
    by (simp split: if_splits)
  with inv have one: "k = 0" "drains s = [drains s ! 0]"
    using single_drain by blast+
  with TimerFired step obtain due where due: "drains s = [AwaitingTimer due]"
    by (cases "drains s ! 0") (auto split: if_splits)
  with TimerFired step one inv show ?thesis
    by (auto simp add: dispatch_head_cases resume_def consistent_def split: if_splits)
next
  case (Settled k c fn_settled now t)
  with step have k: "k < length (drains s)" "drains s ! k = AwaitingRequest c"
    by (simp_all split: if_splits)
  with inv have one: "k = 0" "drains s = [AwaitingRequest c]"
    using single_drain by metis+
  with Settled step inv show ?thesis
    by (auto simp add: loop_head_cases resume_def consistent_def split: if_splits)
qed


subsection \<open>What was enqueued and what was delivered\<close>

lemma wrapper_fst: "fst (wrapper fn_settled) = fn_settled"
  by (cases fn_settled) (simp_all add: wrapper_def)

lemma step_history:
  assumes inv: "consistent s" and step: "step s ev = Some s'"
  shows "map fst (started s') @ requestQueue s' =
           map fst (started s) @ requestQueue s @ enqueued [ev] \<and>
         delivered s' = delivered s @ settlements [ev]"
proof (cases ev)
  case (Enqueue c now t)
  show ?thesis
  proof (cases "isProcessingQueue s")
    case True
    with Enqueue step have "s' = s \<lparr> requestQueue := requestQueue s @ [c] \<rparr>"
      by (simp add: Let_def)
    with Enqueue show ?thesis by simp
  next
    case False
    with inv have idle: "drains s = []" "requestQueue s = []"
      by (auto simp add: consistent_def)
    with Enqueue step False show ?thesis
      by (auto simp add: loop_head_cases Let_def split: if_splits)
  qed
next
  case (TimerFired k t)
  with step have k: "k < length (drains s)"
    by (simp split: if_splits)
  with inv have one: "k = 0" "drains s = [drains s ! 0]"
    using single_drain by blast+
  with TimerFired step obtain due where due: "drains s = [AwaitingTimer due]"
    by (cases "drains s ! 0") (auto split: if_splits)
  with TimerFired step one show ?thesis
    by (cases "requestQueue s")
       (auto simp add: dispatch_head_cases resume_def split: if_splits)
next
  case (Settled k c fn_settled now t)
  with step have k: "k < length (drains s)" "drains s ! k = AwaitingRequest c"
    by (simp_all split: if_splits)
  with inv have one: "k = 0" "drains s = [AwaitingRequest c]"
    using single_drain by metis+
  with Settled step show ?thesis
    by (cases "requestQueue s")
       (auto simp add: loop_head_cases resume_def wrapper_fst split: if_splits)
qed

lemma enqueued_append: "enqueued (evs @ evs') = enqueued evs @ enqueued evs'"
  by (induction evs rule: enqueued.induct) simp_all

lemma settlements_append: "settlements (evs @ evs') = settlements evs @ settlements evs'"
  by (induction evs rule: settlements.induct) simp_all

lemma run_history:
  assumes "run s evs = Some s'" and "consistent s"
  shows "consistent s' \<and>
         map fst (started s') @ requestQueue s' =
           map fst (started s) @ requestQueue s @ enqueued evs \<and>
         delivered s' = delivered s @ settlements evs"
  using assms
proof (induction evs arbitrary: s)
  case Nil
  then show ?case by simp
next
  case (Cons ev evs)
  then obtain s1 where first: "step s ev = Some s1" and rest: "run s1 evs = Some s'"
    by (auto split: option.splits)
  have inv1: "consistent s1"
    using step_consistent [OF Cons.prems(2) first] .
  have h1: "map fst (started s1) @ requestQueue s1 =
           map fst (started s) @ requestQueue s @ enqueued [ev]"
    and d1: "delivered s1 = delivered s @ settlements [ev]"
    using step_history [OF Cons.prems(2) first] by simp_all
  have ih: "consistent s' \<and>
         map fst (started s') @ requestQueue s' =
           map fst (started s1) @ requestQueue s1 @ enqueued evs \<and>
         delivered s' = delivered s1 @ settlements evs"
    using Cons.IH [OF rest inv1] .
  have e: "enqueued (ev # evs) = enqueued [ev] @ enqueued evs"
    using enqueued_append [of "[ev]" evs] by simp
  have t: "settlements (ev # evs) = settlements [ev] @ settlements evs"
    using settlements_append [of "[ev]" evs] by simp
  have "map fst (started s') @ requestQueue s' =
          (map fst (started s1) @ requestQueue s1) @ enqueued evs"
    using ih by simp
  also have "\<dots> = map fst (started s) @ requestQueue s @ enqueued [ev] @ enqueued evs"
    by (simp only: h1 append_assoc)
  finally have "map fst (started s') @ requestQueue s' =
          map fst (started s) @ requestQueue s @ enqueued (ev # evs)"
    by (simp only: e)
  moreover have "delivered s' = delivered s @ settlements (ev # evs)"
    using ih d1 by (simp only: t append_assoc)
  ultimately show ?case using ih by blast
qed

subsection \<open>Pacing\<close>











subsection \<open>Running to completion\<close>

lemma timer_step:
  assumes inv: "consistent s" and timer: "drains s = [AwaitingTimer due]"
  obtains s1 where "step s (TimerFired 0 t) = Some s1" and "consistent s1"
    and "delivered s1 = delivered s"
    and "in_flight (drains s1) @ requestQueue s1 = requestQueue s"
    and "work s1 < work s"
proof -
  define s1 where "s1 = resume 0 (dispatch_head t s)"
  have step: "step s (TimerFired 0 t) = Some s1"
    using timer by (simp add: s1_def)
  have "consistent s1" using step_consistent [OF inv step] .
  moreover have "delivered s1 = delivered s"
    using timer by (simp add: s1_def dispatch_head_cases resume_def)
  moreover have "in_flight (drains s1) @ requestQueue s1 = requestQueue s"
    using timer by (cases "requestQueue s") (simp_all add: s1_def dispatch_head_cases resume_def)
  moreover have "work s1 < work s"
    using timer by (cases "requestQueue s")
      (simp_all add: s1_def dispatch_head_cases resume_def work_def)
  ultimately show ?thesis using step that by blast
qed

lemma settle_step:
  assumes inv: "consistent s" and request: "drains s = [AwaitingRequest c]"
  obtains s1 where "step s (Settled 0 c fn_settled now t) = Some s1" and "consistent s1"
    and "delivered s1 = delivered s @ [(c, fn_settled)]"
    and "in_flight (drains s1) @ requestQueue s1 = requestQueue s"
    and "work s1 < work s"
proof -
  define s1 where "s1 = resume 0 (loop_head now t
      (s \<lparr> delivered := delivered s @ [(c, fst (wrapper fn_settled))] \<rparr>))"
  have step: "step s (Settled 0 c fn_settled now t) = Some s1"
    using request by (simp add: s1_def)
  have "consistent s1" using step_consistent [OF inv step] .
  moreover have "delivered s1 = delivered s @ [(c, fn_settled)]"
    using request by (simp add: s1_def loop_head_cases resume_def wrapper_fst)
  moreover have "in_flight (drains s1) @ requestQueue s1 = requestQueue s"
    using request by (cases "requestQueue s") (simp_all add: s1_def loop_head_cases resume_def)
  moreover have "work s1 < work s"
    using request by (cases "requestQueue s")
      (simp_all add: s1_def loop_head_cases resume_def work_def)
  ultimately show ?thesis using step that by blast
qed

lemma drive_completes:
  assumes "consistent s" and "work s \<le> n"
  shows "drains (drive n outcome clock s) = [] \<and>
         requestQueue (drive n outcome clock s) = [] \<and>
         delivered (drive n outcome clock s) =
           delivered s @ map (\<lambda>c. (c, outcome c)) (in_flight (drains s) @ requestQueue s)"
  using assms
proof (induction n arbitrary: s)
  case 0
  then have "requestQueue s = []" and "drains s = []"
    by (auto simp add: work_def split: list.splits drain.splits)
  then show ?case by simp
next
  case (Suc n)
  show ?case
  proof (cases "drains s")
    case Nil
    then have "requestQueue s = []"
      using Suc.prems(1) by (auto simp add: consistent_def)
    with Nil show ?thesis by (simp add: next_event_def)
  next
    case (Cons d ds)
    then have single: "drains s = [d]"
      using Suc.prems(1) by (simp add: consistent_def)
    show ?thesis
    proof (cases d)
      case (AwaitingTimer due)
      with single have timer: "drains s = [AwaitingTimer due]" by simp
      obtain s1 where step: "step s (TimerFired 0 (max due (clock n))) = Some s1"
        and inv1: "consistent s1" and del: "delivered s1 = delivered s"
        and rest: "in_flight (drains s1) @ requestQueue s1 = requestQueue s"
        and less: "work s1 < work s"
        using timer_step [OF Suc.prems(1) timer] by blast
      have "work s1 \<le> n" using less Suc.prems(2) by simp
      from Suc.IH [OF inv1 this]
      have "drains (drive n outcome clock s1) = [] \<and>
            requestQueue (drive n outcome clock s1) = [] \<and>
            delivered (drive n outcome clock s1) =
              delivered s @ map (\<lambda>c. (c, outcome c)) (requestQueue s)"
        by (simp only: del rest)
      moreover have "drive (Suc n) outcome clock s = drive n outcome clock s1"
        using timer step by (simp add: next_event_def)
      ultimately show ?thesis using timer by simp
    next
      case (AwaitingRequest c)
      with single have request: "drains s = [AwaitingRequest c]" by simp
      obtain s1 where step: "step s (Settled 0 c (outcome c) (clock n) (clock n)) = Some s1"
        and inv1: "consistent s1" and del: "delivered s1 = delivered s @ [(c, outcome c)]"
        and rest: "in_flight (drains s1) @ requestQueue s1 = requestQueue s"
        and less: "work s1 < work s"
        using settle_step [OF Suc.prems(1) request] by blast
      have "work s1 \<le> n" using less Suc.prems(2) by simp
      from Suc.IH [OF inv1 this]
      have "drains (drive n outcome clock s1) = [] \<and>
            requestQueue (drive n outcome clock s1) = [] \<and>
            delivered (drive n outcome clock s1) =
              (delivered s @ [(c, outcome c)]) @ map (\<lambda>c. (c, outcome c)) (requestQueue s)"
        by (simp only: del rest)
      moreover have "drive (Suc n) outcome clock s = drive n outcome clock s1"
        using request step by (simp add: next_event_def)
      ultimately show ?thesis using request by simp
    qed
  qed
qed

text \<open>Running to completion is a run of the dispatcher, with no further caller.\<close>

lemma drive_is_run:
  "\<exists>evs'. enqueued evs' = [] \<and> timely_run s evs' \<and>
          run s evs' = Some (drive n outcome clock s)"
proof (induction n arbitrary: s)
  case 0
  have "enqueued ([] :: 'a event list) = [] \<and> timely_run s [] \<and>
        run s [] = Some (drive 0 outcome clock s)"
    by simp
  then show ?case by blast
next
  case (Suc n)
  show ?case
  proof (cases "next_event outcome (clock n) s")
    case None
    then have "enqueued ([] :: 'a event list) = [] \<and> timely_run s [] \<and>
        run s [] = Some (drive (Suc n) outcome clock s)"
      by simp
    then show ?thesis by blast
  next
    case (Some ev)
    then obtain d ds where frames: "drains s = d # ds"
      by (cases "drains s") (simp_all add: next_event_def)
    have "\<exists>s1. step s ev = Some s1 \<and> timely s ev \<and> enqueued [ev] = []"
      using Some frames by (cases d) (auto simp add: next_event_def)
    then obtain s1 where first: "step s ev = Some s1" "timely s ev" "enqueued [ev] = []"
      by blast
    obtain evs' where rest: "enqueued evs' = []" "timely_run s1 evs'"
        "run s1 evs' = Some (drive n outcome clock s1)"
      using Suc.IH by blast
    have "enqueued (ev # evs') = []"
      using first(3) rest(1) enqueued_append [of "[ev]" evs'] by simp
    moreover have "timely_run s (ev # evs')"
      using first rest by simp
    moreover have "run s (ev # evs') = Some (drive (Suc n) outcome clock s)"
      using Some first rest by simp
    ultimately show ?thesis by blast
  qed
qed





lemma example_queued: "run initial (take 3 example_events) = Some queued_state"
  by (simp add: example_events_def queued_state_def dispatcher_eval)

text \<open>
  C5. In every state the dispatcher reaches from its initial state, whatever the calls
  of \<open>withRateLimit\<close>, the timers and the settlements: the wrapper hands the caller's
  promise exactly the settlement of its operation, result or failure; the settlements
  delivered are those of the operations, each to its own caller; every caller that
  enqueued has its settlement, or its operation is in flight or queued, in the order of
  arrival. From any such state, when the timers fire and the operations settle in any
  way, failures included, the dispatcher comes to rest with an empty queue, having
  delivered to each caller still waiting the settlement of its own operation; the steps
  that take it there are steps of the dispatcher, with no further caller.
\<close>

theorem dispatcher_delivers:
  assumes "run initial evs = Some s"
  shows "fst (wrapper fn_settled) = fn_settled \<and>
         delivered s = settlements evs \<and>
         enqueued evs = map fst (delivered s) @ in_flight (drains s) @ requestQueue s \<and>
         drains (drive (work s) outcome clock s) = [] \<and>
         requestQueue (drive (work s) outcome clock s) = [] \<and>
         delivered (drive (work s) outcome clock s) =
           delivered s @ map (\<lambda>c. (c, outcome c)) (in_flight (drains s) @ requestQueue s) \<and>
         (\<exists>evs'. enqueued evs' = [] \<and> timely_run s evs' \<and>
                 run s evs' = Some (drive (work s) outcome clock s))"
proof -
  have hist: "consistent s"
    using run_history [OF assms consistent_initial] by simp
  have settled: "delivered s = settlements evs"
    using run_history [OF assms consistent_initial] by (simp add: initial_def)
  have "map fst (started s) @ requestQueue s = enqueued evs"
    using run_history [OF assms consistent_initial] by (simp add: initial_def)
  moreover have "map fst (started s) = map fst (delivered s) @ in_flight (drains s)"
    using hist by (simp add: consistent_def)
  ultimately have order: "enqueued evs =
      map fst (delivered s) @ in_flight (drains s) @ requestQueue s"
    by simp
  have complete: "drains (drive (work s) outcome clock s) = [] \<and>
         requestQueue (drive (work s) outcome clock s) = [] \<and>
         delivered (drive (work s) outcome clock s) =
           delivered s @ map (\<lambda>c. (c, outcome c)) (in_flight (drains s) @ requestQueue s)"
    using drive_completes [OF hist, of "work s" outcome clock] by simp
  show ?thesis
    using wrapper_fst [of fn_settled] settled order complete
      drive_is_run [of s "work s" outcome clock]
    by blast
qed

theorem dispatcher_delivers_witness:
  "run initial (take 3 example_events) = Some queued_state \<and>
   enqueued (take 3 example_events) = [1, 2, 3] \<and>
   delivered (drive (work queued_state) second_fails (\<lambda>n. 2000) queued_state) =
     [(1, Inr ''done''), (2, Inl (NetworkError ''down'')), (3, Inr ''done'')]"
proof -
  have "delivered (drive (work queued_state) second_fails (\<lambda>n. 2000) queued_state) =
          delivered queued_state @
          map (\<lambda>c. (c, second_fails c)) (in_flight (drains queued_state) @ requestQueue queued_state)"
    using dispatcher_delivers [OF example_queued] by blast
  then have "delivered (drive (work queued_state) second_fails (\<lambda>n. 2000) queued_state) =
     [(1, Inr ''done''), (2, Inl (NetworkError ''down'')), (3, Inr ''done'')]"
    by (simp add: queued_state_def second_fails_def)
  moreover have "enqueued (take 3 example_events) = [1, 2, 3]"
    by (simp add: example_events_def)
  ultimately show ?thesis using example_queued by simp
qed



text \<open>
  The claim C6 as stated fails: the drain sets its timer for the 60 ms left at 1040 and
  dispatches when the timer fires; the timer fires when \<open>Date.now()\<close> reads 1099, and
  the recorded start times of the two dispatches, 1000 and 1099, are 99 ms apart.
\<close>

theorem dispatcher_fifo_paced_single_drain_counterexample:
  "run initial (take 3 early_timer_events) =
     Some \<lparr> requestQueue = [2], isProcessingQueue = True, lastRequestTime = 1000,
            drains = [AwaitingTimer 1100], started = [(1, 1000)],
            delivered = [(1, Inr ''first'')] \<rparr> \<and>
   run initial early_timer_events =
     Some \<lparr> requestQueue = [], isProcessingQueue = False, lastRequestTime = 1099, drains = [],
            started = [(1, 1000), (2, 1099)],
            delivered = [(1, Inr ''first''), (2, Inr ''second'')] \<rparr> \<and>
   \<not> spaced [1000, 1099]"
  by (simp add: early_timer_events_def dispatcher_eval)


end
